theory Spec2Isabelle
  imports Main "HOL-Library.Word"
begin

unbundle bit_operations_syntax

section \<open>Data model of target/mips/internal.h\<close>

text \<open>
  The helpers of \<^verbatim>\<open>internal.h\<close> read and write the CPU state \<^verbatim>\<open>CPUMIPSState\<close>. Its
  declaration, and the macros that name bit positions and masks (\<^verbatim>\<open>CP0St_IE\<close>,
  \<^verbatim>\<open>MIPS_HFLAG_KSU\<close>, ...), live in \<^verbatim>\<open>cpu.h\<close> and \<^verbatim>\<open>mips-defs.h\<close>, outside
  the header modelled here. The macros are therefore parameters of the model: every
  function takes a record \<open>K\<close> of them, and every result below holds for whatever values
  they have, unless a hypothesis on \<open>K\<close> says otherwise.

  The control registers are 32-bit (\<^verbatim>\<open>cpu_mips_hw_interrupts_pending\<close> copies the masked
  Cause and Status into \<^verbatim>\<open>int32_t\<close> locals); \<^verbatim>\<open>target_ulong\<close> is kept at 64 bits, the
  wider of its two widths, and only bit 0 of a \<^verbatim>\<open>target_ulong\<close> register is ever read.
\<close>

type_synonym int32_t = "32 word"
type_synonym uint32_t = "32 word"
type_synonym uint16_t = "16 word"
type_synonym uint64_t = "64 word"
type_synonym target_ulong = "64 word"

text \<open>Bit positions are shift counts, masks are 32-bit values, \<^verbatim>\<open>TARGET_MIPS64\<close> is the
  compile-time switch of the \<^verbatim>\<open>#if defined(TARGET_MIPS64)\<close> block.\<close>

record mips_defs =
  CP0St_IE :: nat
  CP0St_EXL :: nat
  CP0St_ERL :: nat
  CP0St_KSU :: nat
  CP0St_UX :: nat
  CP0St_SX :: nat
  CP0St_KX :: nat
  CP0St_PX :: nat
  CP0St_MX :: nat
  CP0St_FR :: nat
  CP0St_CU0 :: nat
  CP0St_CU1 :: nat
  CP0St_CU3 :: nat
  CP0Ca_IP_mask :: int32_t
  CP0C3_VEIC :: nat
  CP0C3_LPA :: nat
  CP0C5_SBRI :: nat
  CP0C5_MSAEn :: nat
  CP0C5_FRE :: nat
  CP0PG_ELPA :: nat
  CP0TCSt_IXMT :: nat
  CP0TCSt_A :: nat
  CP0MVPCo_EVP :: nat
  CP0VPEC0_VPA :: nat
  CP0VPCtl_DIS :: nat
  FCR0_F64 :: nat
  FCR0_FREP :: nat
  MIPS_HFLAG_KSU :: uint32_t
  MIPS_HFLAG_UM :: uint32_t
  MIPS_HFLAG_SM :: uint32_t
  MIPS_HFLAG_KM :: uint32_t
  MIPS_HFLAG_DM :: uint32_t
  MIPS_HFLAG_64 :: uint32_t
  MIPS_HFLAG_CP0 :: uint32_t
  MIPS_HFLAG_FPU :: uint32_t
  MIPS_HFLAG_F64 :: uint32_t
  MIPS_HFLAG_COP1X :: uint32_t
  MIPS_HFLAG_AWRAP :: uint32_t
  MIPS_HFLAG_DSP :: uint32_t
  MIPS_HFLAG_DSPR2 :: uint32_t
  MIPS_HFLAG_SBRI :: uint32_t
  MIPS_HFLAG_MSA :: uint32_t
  MIPS_HFLAG_FRE :: uint32_t
  MIPS_HFLAG_ELPA :: uint32_t
  MIPS_HFLAG_ERL :: uint32_t
  ISA_MIPS3 :: uint32_t
  ISA_MIPS4 :: uint32_t
  ISA_MIPS32 :: uint32_t
  ISA_MIPS32R2 :: uint32_t
  ISA_MIPS32R6 :: uint32_t
  ISA_MIPS64R6 :: uint32_t
  ASE_DSP :: uint32_t
  ASE_DSPR2 :: uint32_t
  ASE_MSA :: uint32_t
  TARGET_MIPS64 :: bool

text \<open>\<^verbatim>\<open>struct r4k_tlb_t\<close>: one-bit fields are booleans, \<^verbatim>\<open>PFN[2]\<close> is a pair of fields.\<close>

record r4k_tlb_t =
  VPN :: target_ulong
  PageMask :: uint32_t
  ASID :: uint16_t
  G :: bool
  C0 :: "3 word"
  C1 :: "3 word"
  V0 :: bool
  V1 :: bool
  D0 :: bool
  D1 :: bool
  XI0 :: bool
  XI1 :: bool
  RI0 :: bool
  RI1 :: bool
  EHINV :: bool
  PFN0 :: uint64_t
  PFN1 :: uint64_t

text \<open>\<^verbatim>\<open>struct CPUMIPSTLBContext\<close>, without its function pointers; \<^verbatim>\<open>mmu.r4k.tlb\<close> is the
  entry array.\<close>

record CPUMIPSTLBContext =
  nb_tlb :: uint32_t
  tlb_in_use :: uint32_t
  r4k_tlb :: "r4k_tlb_t list"

record TCState =
  CP0_TCStatus :: int32_t
  CP0_TCHalt :: target_ulong
  msacsr :: int32_t

record CPUMIPSFPUContext =
  fcr0 :: uint32_t
  fcr31 :: uint32_t

record CPUMIPSMVPContext =
  CP0_MVPControl :: int32_t

text \<open>The fields of \<^verbatim>\<open>CPUMIPSState\<close> that \<^verbatim>\<open>internal.h\<close> touches. \<^verbatim>\<open>env->mvp\<close> and
  \<^verbatim>\<open>env->tlb\<close> are pointers in the source; nothing here writes through them, so the
  pointed-to contexts are held by value.\<close>

record CPUMIPSState =
  active_tc :: TCState
  active_fpu :: CPUMIPSFPUContext
  PABITS :: uint32_t
  PAMask :: uint64_t
  CP0_VPControl :: int32_t
  CP0_VPEConf0 :: int32_t
  CP0_PageGrain :: int32_t
  CP0_Status :: int32_t
  CP0_Cause :: int32_t
  CP0_Config3 :: int32_t
  CP0_Config5 :: int32_t
  hflags :: uint32_t
  insn_flags :: uint32_t
  mvp :: CPUMIPSMVPContext
  tlb :: CPUMIPSTLBContext

text \<open>\<^verbatim>\<open>1 << n\<close> on a 32-bit \<^verbatim>\<open>int\<close>. The bit positions of the target are all below
  32; for a larger count \<open>push_bit\<close> gives 0, where C leaves the shift undefined.\<close>

definition shl1 :: "nat \<Rightarrow> 32 word" where
  "shl1 n = push_bit n 1"

section \<open>Interrupt evaluation\<close>

text \<open>The predicates take \<^verbatim>\<open>CPUMIPSState *env\<close>; the model returns the result together
  with the state the call leaves behind.\<close>

definition cpu_mips_hw_interrupts_enabled ::
    "mips_defs \<Rightarrow> CPUMIPSState \<Rightarrow> bool \<times> CPUMIPSState" where
  "cpu_mips_hw_interrupts_enabled K env =
     (CP0_Status env AND shl1 (CP0St_IE K) \<noteq> 0 \<and>
      \<not> (CP0_Status env AND shl1 (CP0St_EXL K) \<noteq> 0) \<and>
      \<not> (CP0_Status env AND shl1 (CP0St_ERL K) \<noteq> 0) \<and>
      \<not> (hflags env AND MIPS_HFLAG_DM K \<noteq> 0) \<and>
      \<not> (CP0_TCStatus (active_tc env) AND shl1 (CP0TCSt_IXMT K) \<noteq> 0),
      env)"

text \<open>\<^verbatim>\<open>pending\<close> and \<^verbatim>\<open>status\<close> are \<^verbatim>\<open>int32_t\<close>, so \<^verbatim>\<open>pending > status\<close> is a signed
  comparison.\<close>

definition cpu_mips_hw_interrupts_pending ::
    "mips_defs \<Rightarrow> CPUMIPSState \<Rightarrow> bool \<times> CPUMIPSState" where
  "cpu_mips_hw_interrupts_pending K env =
     (let pending = CP0_Cause env AND CP0Ca_IP_mask K;
          status = CP0_Status env AND CP0Ca_IP_mask K;
          r = (if CP0_Config3 env AND shl1 (CP0C3_VEIC K) \<noteq> 0
               then sint status < sint pending
               else pending AND status \<noteq> 0)
      in (r, env))"

section \<open>VPE and VP activity\<close>

definition mips_vpe_active :: "mips_defs \<Rightarrow> CPUMIPSState \<Rightarrow> int \<times> CPUMIPSState" where
  "mips_vpe_active K env =
     (let active = 1;
          active = (if \<not> (CP0_MVPControl (mvp env) AND shl1 (CP0MVPCo_EVP K) \<noteq> 0)
                    then 0 else active);
          active = (if \<not> (CP0_VPEConf0 env AND shl1 (CP0VPEC0_VPA K) \<noteq> 0)
                    then 0 else active);
          active = (if \<not> (CP0_TCStatus (active_tc env) AND shl1 (CP0TCSt_A K) \<noteq> 0)
                    then 0 else active);
          active = (if CP0_TCHalt (active_tc env) AND 1 \<noteq> 0 then 0 else active)
      in (active, env))"

text \<open>The scan over the other CPUs is inside \<^verbatim>\<open>#if 0\<close>: what is compiled is the test of
  the VP's own DIS bit and the final \<^verbatim>\<open>return 1\<close>. \<^verbatim>\<open>CP0_VPControl\<close> is signed, so the
  shift is arithmetic.\<close>

definition mips_vp_active :: "mips_defs \<Rightarrow> CPUMIPSState \<Rightarrow> int \<times> CPUMIPSState" where
  "mips_vp_active K env =
     (if signed_drop_bit (CP0VPCtl_DIS K) (CP0_VPControl env) AND 1 \<noteq> 0
      then (1, env)
      else (1, env))"

section \<open>Recomputation of the mode flags\<close>

text \<open>\<^verbatim>\<open>compute_hflags\<close> is a sequence of statements on \<^verbatim>\<open>env\<close>. Each statement is a
  function from the state before it to the state after it, in source order.\<close>

text \<open>Lines 251-255: \<^verbatim>\<open>env->hflags &= ~(...)\<close>.\<close>

definition hflags_clear_mask :: "mips_defs \<Rightarrow> uint32_t" where
  "hflags_clear_mask K =
     (MIPS_HFLAG_COP1X K OR MIPS_HFLAG_64 K OR MIPS_HFLAG_CP0 K OR
      MIPS_HFLAG_F64 K OR MIPS_HFLAG_FPU K OR MIPS_HFLAG_KSU K OR
      MIPS_HFLAG_AWRAP K OR MIPS_HFLAG_DSP K OR MIPS_HFLAG_DSPR2 K OR
      MIPS_HFLAG_SBRI K OR MIPS_HFLAG_MSA K OR MIPS_HFLAG_FRE K OR
      MIPS_HFLAG_ELPA K OR MIPS_HFLAG_ERL K)"

definition hflags_clear :: "mips_defs \<Rightarrow> CPUMIPSState \<Rightarrow> CPUMIPSState" where
  "hflags_clear K env = env\<lparr>hflags := hflags env AND NOT (hflags_clear_mask K)\<rparr>"

text \<open>Lines 256-258.\<close>

definition hflags_ERL :: "mips_defs \<Rightarrow> CPUMIPSState \<Rightarrow> CPUMIPSState" where
  "hflags_ERL K env =
     (if CP0_Status env AND shl1 (CP0St_ERL K) \<noteq> 0
      then env\<lparr>hflags := hflags env OR MIPS_HFLAG_ERL K\<rparr>
      else env)"

text \<open>Lines 259-263. \<^verbatim>\<open>CP0_Status\<close> is signed: the shift is arithmetic.\<close>

definition hflags_KSU :: "mips_defs \<Rightarrow> CPUMIPSState \<Rightarrow> CPUMIPSState" where
  "hflags_KSU K env =
     (if \<not> (CP0_Status env AND shl1 (CP0St_EXL K) \<noteq> 0) \<and>
         \<not> (CP0_Status env AND shl1 (CP0St_ERL K) \<noteq> 0) \<and>
         \<not> (hflags env AND MIPS_HFLAG_DM K \<noteq> 0)
      then env\<lparr>hflags := hflags env OR
                 (signed_drop_bit (CP0St_KSU K) (CP0_Status env) AND MIPS_HFLAG_KSU K)\<rparr>
      else env)"

text \<open>Lines 265-270 (inside \<^verbatim>\<open>#if defined(TARGET_MIPS64)\<close>).\<close>

definition hflags_64 :: "mips_defs \<Rightarrow> CPUMIPSState \<Rightarrow> CPUMIPSState" where
  "hflags_64 K env =
     (if insn_flags env AND ISA_MIPS3 K \<noteq> 0 \<and>
         (hflags env AND MIPS_HFLAG_KSU K \<noteq> MIPS_HFLAG_UM K \<or>
          CP0_Status env AND shl1 (CP0St_PX K) \<noteq> 0 \<or>
          CP0_Status env AND shl1 (CP0St_UX K) \<noteq> 0)
      then env\<lparr>hflags := hflags env OR MIPS_HFLAG_64 K\<rparr>
      else env)"

text \<open>Lines 272-285 (inside \<^verbatim>\<open>#if defined(TARGET_MIPS64)\<close>).\<close>

definition hflags_AWRAP :: "mips_defs \<Rightarrow> CPUMIPSState \<Rightarrow> CPUMIPSState" where
  "hflags_AWRAP K env =
     (if \<not> (insn_flags env AND ISA_MIPS3 K \<noteq> 0)
      then env\<lparr>hflags := hflags env OR MIPS_HFLAG_AWRAP K\<rparr>
      else if hflags env AND MIPS_HFLAG_KSU K = MIPS_HFLAG_UM K \<and>
              \<not> (CP0_Status env AND shl1 (CP0St_UX K) \<noteq> 0)
      then env\<lparr>hflags := hflags env OR MIPS_HFLAG_AWRAP K\<rparr>
      else if insn_flags env AND ISA_MIPS64R6 K \<noteq> 0
      then (if (hflags env AND MIPS_HFLAG_KSU K = MIPS_HFLAG_SM K \<and>
                \<not> (CP0_Status env AND shl1 (CP0St_SX K) \<noteq> 0)) \<or>
               (hflags env AND MIPS_HFLAG_KSU K = MIPS_HFLAG_KM K \<and>
                \<not> (CP0_Status env AND shl1 (CP0St_KX K) \<noteq> 0))
            then env\<lparr>hflags := hflags env OR MIPS_HFLAG_AWRAP K\<rparr>
            else env)
      else env)"

text \<open>Lines 287-291.\<close>

definition hflags_CP0 :: "mips_defs \<Rightarrow> CPUMIPSState \<Rightarrow> CPUMIPSState" where
  "hflags_CP0 K env =
     (if (CP0_Status env AND shl1 (CP0St_CU0 K) \<noteq> 0 \<and>
          \<not> (insn_flags env AND ISA_MIPS32R6 K \<noteq> 0)) \<or>
         \<not> (hflags env AND MIPS_HFLAG_KSU K \<noteq> 0)
      then env\<lparr>hflags := hflags env OR MIPS_HFLAG_CP0 K\<rparr>
      else env)"

text \<open>Lines 292-294.\<close>

definition hflags_FPU :: "mips_defs \<Rightarrow> CPUMIPSState \<Rightarrow> CPUMIPSState" where
  "hflags_FPU K env =
     (if CP0_Status env AND shl1 (CP0St_CU1 K) \<noteq> 0
      then env\<lparr>hflags := hflags env OR MIPS_HFLAG_FPU K\<rparr>
      else env)"

text \<open>Lines 295-297.\<close>

definition hflags_F64 :: "mips_defs \<Rightarrow> CPUMIPSState \<Rightarrow> CPUMIPSState" where
  "hflags_F64 K env =
     (if CP0_Status env AND shl1 (CP0St_FR K) \<noteq> 0
      then env\<lparr>hflags := hflags env OR MIPS_HFLAG_F64 K\<rparr>
      else env)"

text \<open>Lines 298-301.\<close>

definition hflags_SBRI :: "mips_defs \<Rightarrow> CPUMIPSState \<Rightarrow> CPUMIPSState" where
  "hflags_SBRI K env =
     (if hflags env AND MIPS_HFLAG_KSU K \<noteq> MIPS_HFLAG_KM K \<and>
         CP0_Config5 env AND shl1 (CP0C5_SBRI K) \<noteq> 0
      then env\<lparr>hflags := hflags env OR MIPS_HFLAG_SBRI K\<rparr>
      else env)"

text \<open>Lines 302-316.\<close>

definition hflags_DSP :: "mips_defs \<Rightarrow> CPUMIPSState \<Rightarrow> CPUMIPSState" where
  "hflags_DSP K env =
     (if insn_flags env AND ASE_DSPR2 K \<noteq> 0
      then (if CP0_Status env AND shl1 (CP0St_MX K) \<noteq> 0
            then env\<lparr>hflags := hflags env OR (MIPS_HFLAG_DSP K OR MIPS_HFLAG_DSPR2 K)\<rparr>
            else env)
      else if insn_flags env AND ASE_DSP K \<noteq> 0
      then (if CP0_Status env AND shl1 (CP0St_MX K) \<noteq> 0
            then env\<lparr>hflags := hflags env OR MIPS_HFLAG_DSP K\<rparr>
            else env)
      else env)"

text \<open>Lines 317-333.\<close>

definition hflags_COP1X :: "mips_defs \<Rightarrow> CPUMIPSState \<Rightarrow> CPUMIPSState" where
  "hflags_COP1X K env =
     (if insn_flags env AND ISA_MIPS32R2 K \<noteq> 0
      then (if fcr0 (active_fpu env) AND shl1 (FCR0_F64 K) \<noteq> 0
            then env\<lparr>hflags := hflags env OR MIPS_HFLAG_COP1X K\<rparr>
            else env)
      else if insn_flags env AND ISA_MIPS32 K \<noteq> 0
      then (if hflags env AND MIPS_HFLAG_64 K \<noteq> 0
            then env\<lparr>hflags := hflags env OR MIPS_HFLAG_COP1X K\<rparr>
            else env)
      else if insn_flags env AND ISA_MIPS4 K \<noteq> 0
      then (if CP0_Status env AND shl1 (CP0St_CU3 K) \<noteq> 0
            then env\<lparr>hflags := hflags env OR MIPS_HFLAG_COP1X K\<rparr>
            else env)
      else env)"

text \<open>Lines 334-338.\<close>

definition hflags_MSA :: "mips_defs \<Rightarrow> CPUMIPSState \<Rightarrow> CPUMIPSState" where
  "hflags_MSA K env =
     (if insn_flags env AND ASE_MSA K \<noteq> 0
      then (if CP0_Config5 env AND shl1 (CP0C5_MSAEn K) \<noteq> 0
            then env\<lparr>hflags := hflags env OR MIPS_HFLAG_MSA K\<rparr>
            else env)
      else env)"

text \<open>Lines 339-343.\<close>

definition hflags_FRE :: "mips_defs \<Rightarrow> CPUMIPSState \<Rightarrow> CPUMIPSState" where
  "hflags_FRE K env =
     (if fcr0 (active_fpu env) AND shl1 (FCR0_FREP K) \<noteq> 0
      then (if CP0_Config5 env AND shl1 (CP0C5_FRE K) \<noteq> 0
            then env\<lparr>hflags := hflags env OR MIPS_HFLAG_FRE K\<rparr>
            else env)
      else env)"

text \<open>Lines 344-348.\<close>

definition hflags_ELPA :: "mips_defs \<Rightarrow> CPUMIPSState \<Rightarrow> CPUMIPSState" where
  "hflags_ELPA K env =
     (if CP0_Config3 env AND shl1 (CP0C3_LPA K) \<noteq> 0
      then (if CP0_PageGrain env AND shl1 (CP0PG_ELPA K) \<noteq> 0
            then env\<lparr>hflags := hflags env OR MIPS_HFLAG_ELPA K\<rparr>
            else env)
      else env)"

text \<open>The statements after the \<^verbatim>\<open>#endif\<close> of line 286 that follow the CP0 test.\<close>

definition hflags_tail :: "mips_defs \<Rightarrow> CPUMIPSState \<Rightarrow> CPUMIPSState" where
  "hflags_tail K env =
     (let env = hflags_FPU K env;
          env = hflags_F64 K env;
          env = hflags_SBRI K env;
          env = hflags_DSP K env;
          env = hflags_COP1X K env;
          env = hflags_MSA K env;
          env = hflags_FRE K env;
          env = hflags_ELPA K env
      in env)"

text \<open>The whole of \<^verbatim>\<open>compute_hflags\<close>, lines 249-349.\<close>

definition compute_hflags :: "mips_defs \<Rightarrow> CPUMIPSState \<Rightarrow> CPUMIPSState" where
  "compute_hflags K env =
     (let env = hflags_clear K env;
          env = hflags_ERL K env;
          env = hflags_KSU K env;
          env = (if TARGET_MIPS64 K then hflags_AWRAP K (hflags_64 K env) else env);
          env = hflags_CP0 K env;
          env = hflags_tail K env
      in env)"

section \<open>Layout of the derived flags\<close>

text \<open>The masks that \<^verbatim>\<open>compute_hflags\<close> reads or writes in \<^verbatim>\<open>env->hflags\<close>. The values of
  the privilege field (\<^verbatim>\<open>MIPS_HFLAG_UM\<close>, \<^verbatim>\<open>MIPS_HFLAG_SM\<close>, \<^verbatim>\<open>MIPS_HFLAG_KM\<close>) are not
  masks of their own and are left out.\<close>

definition hflag_masks :: "mips_defs \<Rightarrow> uint32_t list" where
  "hflag_masks K =
     [MIPS_HFLAG_KSU K, MIPS_HFLAG_DM K, MIPS_HFLAG_64 K, MIPS_HFLAG_CP0 K,
      MIPS_HFLAG_FPU K, MIPS_HFLAG_F64 K, MIPS_HFLAG_COP1X K, MIPS_HFLAG_AWRAP K,
      MIPS_HFLAG_DSP K, MIPS_HFLAG_DSPR2 K, MIPS_HFLAG_SBRI K, MIPS_HFLAG_MSA K,
      MIPS_HFLAG_FRE K, MIPS_HFLAG_ELPA K, MIPS_HFLAG_ERL K]"

fun disjoint_from :: "uint32_t \<Rightarrow> uint32_t list \<Rightarrow> bool" where
  "disjoint_from x [] = True"
| "disjoint_from x (y # ys) = (x AND y = 0 \<and> disjoint_from x ys)"

fun pairwise_disjoint :: "uint32_t list \<Rightarrow> bool" where
  "pairwise_disjoint [] = True"
| "pairwise_disjoint (x # xs) = (disjoint_from x xs \<and> pairwise_disjoint xs)"

text \<open>A layout is well formed when every mask is nonzero and no two masks share a bit.\<close>

definition hflags_layout :: "mips_defs \<Rightarrow> bool" where
  "hflags_layout K \<longleftrightarrow>
     list_all (\<lambda>f. f \<noteq> 0) (hflag_masks K) \<and> pairwise_disjoint (hflag_masks K)"

text \<open>The states in which the test of lines 259-261 fails: exception level, error level
  or debug mode.\<close>

definition privileged_state :: "mips_defs \<Rightarrow> CPUMIPSState \<Rightarrow> bool" where
  "privileged_state K env \<longleftrightarrow>
     bit (CP0_Status env) (CP0St_EXL K) \<or> bit (CP0_Status env) (CP0St_ERL K) \<or>
     hflags env AND MIPS_HFLAG_DM K \<noteq> 0"

section \<open>A concrete instance of the macros\<close>

text \<open>The bit positions and masks of the MIPS32/MIPS64 privileged architecture, as the
  target's headers define them. They instantiate the parametric results on concrete
  states; no general result depends on them.\<close>

definition mips_arch_defs :: mips_defs where
  "mips_arch_defs = \<lparr>
     CP0St_IE = 0, CP0St_EXL = 1, CP0St_ERL = 2, CP0St_KSU = 3,
     CP0St_UX = 5, CP0St_SX = 6, CP0St_KX = 7, CP0St_PX = 23,
     CP0St_MX = 24, CP0St_FR = 26, CP0St_CU0 = 28, CP0St_CU1 = 29, CP0St_CU3 = 31,
     CP0Ca_IP_mask = 0xFF00,
     CP0C3_VEIC = 6, CP0C3_LPA = 7,
     CP0C5_SBRI = 6, CP0C5_MSAEn = 27, CP0C5_FRE = 8,
     CP0PG_ELPA = 29,
     CP0TCSt_IXMT = 10, CP0TCSt_A = 13,
     CP0MVPCo_EVP = 0, CP0VPEC0_VPA = 0, CP0VPCtl_DIS = 0,
     FCR0_F64 = 22, FCR0_FREP = 29,
     MIPS_HFLAG_KSU = 0x3, MIPS_HFLAG_UM = 0x2, MIPS_HFLAG_SM = 0x1, MIPS_HFLAG_KM = 0x0,
     MIPS_HFLAG_DM = 0x4, MIPS_HFLAG_64 = 0x8, MIPS_HFLAG_CP0 = 0x10,
     MIPS_HFLAG_FPU = 0x20, MIPS_HFLAG_F64 = 0x40, MIPS_HFLAG_COP1X = 0x80,
     MIPS_HFLAG_AWRAP = 0x200, MIPS_HFLAG_DSP = 0x80000, MIPS_HFLAG_DSPR2 = 0x100000,
     MIPS_HFLAG_SBRI = 0x400000, MIPS_HFLAG_MSA = 0x1000000, MIPS_HFLAG_FRE = 0x2000000,
     MIPS_HFLAG_ELPA = 0x4000000, MIPS_HFLAG_ERL = 0x10000000,
     ISA_MIPS3 = 0x4, ISA_MIPS4 = 0x8, ISA_MIPS32 = 0x20, ISA_MIPS32R2 = 0x40,
     ISA_MIPS32R6 = 0x2000, ISA_MIPS64R6 = 0x4000,
     ASE_DSP = 0x80000, ASE_DSPR2 = 0x100000, ASE_MSA = 0x1000000,
     TARGET_MIPS64 = True \<rparr>"

text \<open>A CPU state with every register at zero, from which concrete states are built by
  field updates.\<close>

definition env_zero :: CPUMIPSState where
  "env_zero = \<lparr>
     active_tc = \<lparr> CP0_TCStatus = 0, CP0_TCHalt = 0, msacsr = 0 \<rparr>,
     active_fpu = \<lparr> fcr0 = 0, fcr31 = 0 \<rparr>,
     PABITS = 0, PAMask = 0,
     CP0_VPControl = 0, CP0_VPEConf0 = 0, CP0_PageGrain = 0,
     CP0_Status = 0, CP0_Cause = 0, CP0_Config3 = 0, CP0_Config5 = 0,
     hflags = 0, insn_flags = 0,
     mvp = \<lparr> CP0_MVPControl = 0 \<rparr>,
     tlb = \<lparr> nb_tlb = 0, tlb_in_use = 0, r4k_tlb = [] \<rparr> \<rparr>"

section \<open>The VP gate as the specification words it\<close>

text \<open>Section 4.4 of the specification asks for a toggle between a scan of the other
  virtual processors and no scan. This definition follows those words, to be compared
  with \<open>mips_vp_active\<close>: \<open>others\<close> are the states of the other virtual processors.\<close>

definition vp_disabled_others :: "mips_defs \<Rightarrow> CPUMIPSState \<Rightarrow> bool" where
  "vp_disabled_others K env \<longleftrightarrow>
     signed_drop_bit (CP0VPCtl_DIS K) (CP0_VPControl env) AND 1 \<noteq> 0"

definition spec_vp_active ::
    "bool \<Rightarrow> mips_defs \<Rightarrow> CPUMIPSState \<Rightarrow> CPUMIPSState list \<Rightarrow> int" where
  "spec_vp_active scan_enabled K env others =
     (if scan_enabled
      then (if vp_disabled_others K env \<or> list_all (\<lambda>v. \<not> vp_disabled_others K v) others
            then 1 else 0)
      else 1)"

section \<open>TLB lookup\<close>

text \<open>Modelled from the spec: \<^verbatim>\<open>r4k_map_address\<close> and \<^verbatim>\<open>r4k_helper_tlbp\<close> are declared in
  \<^verbatim>\<open>internal.h\<close>, but their bodies are in other translation units. The definitions of
  this section follow section 4.1 of the specification (TLB-backed MMU, steps 1 to 6,
  and TLB-probe). The virtual address is given as the three parts the specification
  uses: its page tag, the bit that selects the even or odd half, and its page offset.\<close>

datatype tlb_access = Access_Read | Access_Write | Access_Execute

text \<open>Modelled from the spec: the fault kinds of sections 4.1 and 7, "no match" (refill),
  "entry invalid", "write to non-dirty page" and "execute/read inhibited".\<close>

datatype tlb_fault = TLB_Refill | TLB_Invalid | TLB_Modified | TLB_Inhibited

text \<open>Modelled from the spec: step 2, "its page tag equals the address's tag masked by
  that entry's page-size selector, and (entry is global OR entry's address-space id
  equals the current one)".\<close>

definition r4k_entry_matches :: "r4k_tlb_t \<Rightarrow> target_ulong \<Rightarrow> uint16_t \<Rightarrow> bool" where
  "r4k_entry_matches e tag asid \<longleftrightarrow>
     VPN e = tag AND NOT (ucast (PageMask e)) \<and> (G e \<or> ASID e = asid)"

text \<open>Modelled from the spec: steps 1 and 3, "scan TLB entries in index order; skip
  invalidated entries", stopping at the first match. The result is the index and the
  entry found there.\<close>

fun r4k_scan ::
    "nat \<Rightarrow> r4k_tlb_t list \<Rightarrow> target_ulong \<Rightarrow> uint16_t \<Rightarrow> (nat \<times> r4k_tlb_t) option" where
  "r4k_scan i [] tag asid = None"
| "r4k_scan i (e # es) tag asid =
     (if EHINV e then r4k_scan (Suc i) es tag asid
      else if r4k_entry_matches e tag asid then Some (i, e)
      else r4k_scan (Suc i) es tag asid)"

text \<open>Modelled from the spec: TLB-probe, the index of a matching entry, "not found"
  (\<open>None\<close>) being distinct from index 0.\<close>

definition r4k_helper_tlbp :: "r4k_tlb_t list \<Rightarrow> target_ulong \<Rightarrow> uint16_t \<Rightarrow> nat option" where
  "r4k_helper_tlbp entries tag asid = map_option fst (r4k_scan 0 entries tag asid)"

text \<open>Modelled from the spec: steps 4 and 6 on the matched half: the protection check
  and its fault kinds, then the physical address (frame number of the half with the
  offset bits kept) and whether a write is granted.\<close>

definition r4k_check_half ::
    "r4k_tlb_t \<Rightarrow> bool \<Rightarrow> uint64_t \<Rightarrow> tlb_access \<Rightarrow> tlb_fault + (uint64_t \<times> bool)" where
  "r4k_check_half e sel offset acc =
     (let v = (if sel then V1 e else V0 e);
          d = (if sel then D1 e else D0 e);
          xi = (if sel then XI1 e else XI0 e);
          ri = (if sel then RI1 e else RI0 e);
          pfn = (if sel then PFN1 e else PFN0 e)
      in if \<not> v then Inl TLB_Invalid
         else if acc = Access_Execute \<and> xi then Inl TLB_Inhibited
         else if acc = Access_Read \<and> ri then Inl TLB_Inhibited
         else if acc = Access_Write \<and> \<not> d then Inl TLB_Modified
         else Inr (pfn OR offset, d))"

text \<open>Modelled from the spec: the TLB-backed translation, steps 1 to 6; no match at all
  is the refill fault of step 5.\<close>

definition r4k_map_address ::
    "r4k_tlb_t list \<Rightarrow> target_ulong \<Rightarrow> bool \<Rightarrow> uint64_t \<Rightarrow> uint16_t \<Rightarrow> tlb_access
       \<Rightarrow> tlb_fault + (uint64_t \<times> bool)" where
  "r4k_map_address entries tag sel offset asid acc =
     (case r4k_scan 0 entries tag asid of
        None \<Rightarrow> Inl TLB_Refill
      | Some (i, e) \<Rightarrow> r4k_check_half e sel offset acc)"

text \<open>An entry with every field at zero, from which concrete tables are built.\<close>

definition tlb_entry_zero :: r4k_tlb_t where
  "tlb_entry_zero = \<lparr> VPN = 0, PageMask = 0, ASID = 0, G = False, C0 = 0, C1 = 0,
     V0 = False, V1 = False, D0 = False, D1 = False, XI0 = False, XI1 = False,
     RI0 = False, RI1 = False, EHINV = False, PFN0 = 0, PFN1 = 0 \<rparr>"

section \<open>Auxiliary notions for the proofs\<close>

text \<open>\<open>bits_within v F\<close>: every bit of \<open>v\<close> is a bit of the mask \<open>F\<close>.\<close>

definition bits_within :: "uint32_t \<Rightarrow> uint32_t \<Rightarrow> bool" where
  "bits_within v F \<longleftrightarrow> v AND NOT F = 0"

text \<open>\<open>sets_within F e e'\<close>: the state \<open>e'\<close> is \<open>e\<close> with some bits of the mask \<open>F\<close> set
  in \<^verbatim>\<open>hflags\<close>, and nothing else changed. Every statement of \<^verbatim>\<open>compute_hflags\<close> after
  the first is of this kind.\<close>

definition sets_within :: "uint32_t \<Rightarrow> CPUMIPSState \<Rightarrow> CPUMIPSState \<Rightarrow> bool" where
  "sets_within F e e' \<longleftrightarrow> e' = e\<lparr>hflags := hflags e OR (hflags e' AND F)\<rparr>"

section \<open>Bit tests\<close>

lemma shl1_test: "x AND shl1 n \<noteq> 0 \<longleftrightarrow> bit x n"
  by (simp add: shl1_def and_exp_eq_0_iff_not_bit)

lemma sint_less_top_clear:
  fixes a b :: "32 word"
  assumes "\<not> bit a 31" "\<not> bit b 31"
  shows "sint a < sint b \<longleftrightarrow> a < b"
proof -
  have "sint a = uint a" using assms(1)
    by (intro bit_eqI) (auto simp add: bit_sint_iff bit_uint_iff dest: bit_imp_le_length)
  moreover have "sint b = uint b" using assms(2)
    by (intro bit_eqI) (auto simp add: bit_sint_iff bit_uint_iff dest: bit_imp_le_length)
  ultimately show ?thesis by (simp add: word_less_def)
qed

lemma and_mask_top_clear:
  fixes m :: "32 word"
  shows "\<not> bit m 31 \<Longrightarrow> \<not> bit (x AND m) 31"
  by (simp add: bit_and_iff)

section \<open>Interrupt evaluation: results\<close>

text \<open>Claim C1. In vectored-external-controller mode (the VEIC bit of Config3 set) an
  interrupt is pending exactly when the Cause masked by the IP field is greater than the
  Status masked by the IP field, compared as the signed 32-bit numbers the source holds
  them in; whenever the IP mask leaves bit 31 clear this is the comparison of the two as
  magnitudes. In compatibility mode (VEIC clear) it is pending exactly when the AND of the
  two masked values is nonzero. With the architecture's constants, level 5 against level
  3 in the IP field is pending in vectored mode, and lines 0b0100 against mask 0b0110
  in compatibility mode.\<close>

theorem interrupts_pending_modes:
  "(bit (CP0_Config3 env) (CP0C3_VEIC K) \<longrightarrow>
      (fst (cpu_mips_hw_interrupts_pending K env) \<longleftrightarrow>
         sint (CP0_Status env AND CP0Ca_IP_mask K) < sint (CP0_Cause env AND CP0Ca_IP_mask K)) \<and>
      (\<not> bit (CP0Ca_IP_mask K) 31 \<longrightarrow>
         (fst (cpu_mips_hw_interrupts_pending K env) \<longleftrightarrow>
            CP0_Status env AND CP0Ca_IP_mask K < CP0_Cause env AND CP0Ca_IP_mask K))) \<and>
   (\<not> bit (CP0_Config3 env) (CP0C3_VEIC K) \<longrightarrow>
      (fst (cpu_mips_hw_interrupts_pending K env) \<longleftrightarrow>
         (CP0_Cause env AND CP0Ca_IP_mask K) AND (CP0_Status env AND CP0Ca_IP_mask K) \<noteq> 0)) \<and>
   fst (cpu_mips_hw_interrupts_pending mips_arch_defs
          (env\<lparr>CP0_Config3 := push_bit 6 1, CP0_Cause := push_bit 8 5, CP0_Status := push_bit 8 3\<rparr>)) \<and>
   fst (cpu_mips_hw_interrupts_pending mips_arch_defs
          (env\<lparr>CP0_Config3 := 0, CP0_Cause := push_bit 8 4, CP0_Status := push_bit 8 6\<rparr>))"
proof (intro conjI impI)
  assume "bit (CP0_Config3 env) (CP0C3_VEIC K)"
  then show v: "fst (cpu_mips_hw_interrupts_pending K env) \<longleftrightarrow>
         sint (CP0_Status env AND CP0Ca_IP_mask K) < sint (CP0_Cause env AND CP0Ca_IP_mask K)"
    by (simp add: cpu_mips_hw_interrupts_pending_def Let_def shl1_test)
  assume "\<not> bit (CP0Ca_IP_mask K) 31"
  then show "fst (cpu_mips_hw_interrupts_pending K env) \<longleftrightarrow>
            CP0_Status env AND CP0Ca_IP_mask K < CP0_Cause env AND CP0Ca_IP_mask K"
    using v by (simp add: sint_less_top_clear and_mask_top_clear)
next
  assume "\<not> bit (CP0_Config3 env) (CP0C3_VEIC K)"
  then show "fst (cpu_mips_hw_interrupts_pending K env) \<longleftrightarrow>
         (CP0_Cause env AND CP0Ca_IP_mask K) AND (CP0_Status env AND CP0Ca_IP_mask K) \<noteq> 0"
    by (simp add: cpu_mips_hw_interrupts_pending_def Let_def shl1_test)
next
  show "fst (cpu_mips_hw_interrupts_pending mips_arch_defs
          (env\<lparr>CP0_Config3 := push_bit 6 1, CP0_Cause := push_bit 8 5, CP0_Status := push_bit 8 3\<rparr>))"
    by (simp add: cpu_mips_hw_interrupts_pending_def Let_def shl1_def mips_arch_defs_def)
next
  show "fst (cpu_mips_hw_interrupts_pending mips_arch_defs
          (env\<lparr>CP0_Config3 := 0, CP0_Cause := push_bit 8 4, CP0_Status := push_bit 8 6\<rparr>))"
    by (simp add: cpu_mips_hw_interrupts_pending_def Let_def shl1_def mips_arch_defs_def)
qed

text \<open>The result on a state in each mode.\<close>

theorem interrupts_pending_modes_witness:
  "bit (CP0_Config3 (env_zero\<lparr>CP0_Config3 := 0x40, CP0_Cause := 0x500, CP0_Status := 0x300\<rparr>))
     (CP0C3_VEIC mips_arch_defs) \<and>
   \<not> bit (CP0Ca_IP_mask mips_arch_defs) 31 \<and>
   fst (cpu_mips_hw_interrupts_pending mips_arch_defs
         (env_zero\<lparr>CP0_Config3 := 0x40, CP0_Cause := 0x500, CP0_Status := 0x300\<rparr>)) \<and>
   \<not> bit (CP0_Config3 (env_zero\<lparr>CP0_Config3 := 0, CP0_Cause := 0x400, CP0_Status := 0x600\<rparr>))
     (CP0C3_VEIC mips_arch_defs) \<and>
   fst (cpu_mips_hw_interrupts_pending mips_arch_defs
         (env_zero\<lparr>CP0_Config3 := 0, CP0_Cause := 0x400, CP0_Status := 0x600\<rparr>))"
  using interrupts_pending_modes [where K = mips_arch_defs
      and env = "env_zero\<lparr>CP0_Config3 := 0x40, CP0_Cause := 0x500, CP0_Status := 0x300\<rparr>"]
    interrupts_pending_modes [where K = mips_arch_defs
      and env = "env_zero\<lparr>CP0_Config3 := 0, CP0_Cause := 0x400, CP0_Status := 0x600\<rparr>"]
  by (simp add: mips_arch_defs_def)

text \<open>Claim C2. Interrupts are enabled exactly when IE is set, EXL is clear, ERL is clear,
  the debug-mode flag of the mode flags is clear and IXMT of the active thread context
  is clear; so with ERL set they are disabled whatever IE is.\<close>

theorem interrupts_enabled_iff:
  "(fst (cpu_mips_hw_interrupts_enabled K env) \<longleftrightarrow>
      bit (CP0_Status env) (CP0St_IE K) \<and>
      \<not> bit (CP0_Status env) (CP0St_EXL K) \<and>
      \<not> bit (CP0_Status env) (CP0St_ERL K) \<and>
      hflags env AND MIPS_HFLAG_DM K = 0 \<and>
      \<not> bit (CP0_TCStatus (active_tc env)) (CP0TCSt_IXMT K)) \<and>
   (bit (CP0_Status env) (CP0St_ERL K) \<longrightarrow> \<not> fst (cpu_mips_hw_interrupts_enabled K env))"
  by (simp add: cpu_mips_hw_interrupts_enabled_def shl1_test)

text \<open>A state with ERL and IE both set is disabled; with IE alone it is enabled.\<close>

theorem interrupts_enabled_iff_witness:
  "bit (CP0_Status (env_zero\<lparr>CP0_Status := 0x5\<rparr>)) (CP0St_ERL mips_arch_defs) \<and>
   bit (CP0_Status (env_zero\<lparr>CP0_Status := 0x5\<rparr>)) (CP0St_IE mips_arch_defs) \<and>
   \<not> fst (cpu_mips_hw_interrupts_enabled mips_arch_defs (env_zero\<lparr>CP0_Status := 0x5\<rparr>)) \<and>
   fst (cpu_mips_hw_interrupts_enabled mips_arch_defs (env_zero\<lparr>CP0_Status := 0x1\<rparr>))"
  using interrupts_enabled_iff [where K = mips_arch_defs and env = "env_zero\<lparr>CP0_Status := 0x5\<rparr>"]
    interrupts_enabled_iff [where K = mips_arch_defs and env = "env_zero\<lparr>CP0_Status := 0x1\<rparr>"]
  by (simp add: mips_arch_defs_def env_zero_def)

text \<open>Claim C9. Both interrupt predicates return the CPU state as they found it, and
  their results depend only on Status, Cause, Config3, the mode flags and the active
  thread context: two states that agree on these get the same answers.\<close>

theorem interrupt_predicates_pure:
  "snd (cpu_mips_hw_interrupts_enabled K env) = env \<and>
   snd (cpu_mips_hw_interrupts_pending K env) = env \<and>
   (CP0_Status env' = CP0_Status env \<and> CP0_Cause env' = CP0_Cause env \<and>
    CP0_Config3 env' = CP0_Config3 env \<and> hflags env' = hflags env \<and>
    active_tc env' = active_tc env \<longrightarrow>
    fst (cpu_mips_hw_interrupts_enabled K env') = fst (cpu_mips_hw_interrupts_enabled K env) \<and>
    fst (cpu_mips_hw_interrupts_pending K env') = fst (cpu_mips_hw_interrupts_pending K env))"
  by (simp add: cpu_mips_hw_interrupts_enabled_def cpu_mips_hw_interrupts_pending_def Let_def)

text \<open>Two states that differ in Config5 and PABITS only.\<close>

theorem interrupt_predicates_pure_witness:
  "env_zero\<lparr>CP0_Status := 0x1, CP0_Config5 := 0x7, PABITS := 36\<rparr> \<noteq> env_zero\<lparr>CP0_Status := 0x1\<rparr> \<and>
   fst (cpu_mips_hw_interrupts_enabled mips_arch_defs
         (env_zero\<lparr>CP0_Status := 0x1, CP0_Config5 := 0x7, PABITS := 36\<rparr>)) =
   fst (cpu_mips_hw_interrupts_enabled mips_arch_defs (env_zero\<lparr>CP0_Status := 0x1\<rparr>)) \<and>
   fst (cpu_mips_hw_interrupts_pending mips_arch_defs
         (env_zero\<lparr>CP0_Status := 0x1, CP0_Config5 := 0x7, PABITS := 36\<rparr>)) =
   fst (cpu_mips_hw_interrupts_pending mips_arch_defs (env_zero\<lparr>CP0_Status := 0x1\<rparr>))"
proof -
  have "env_zero\<lparr>CP0_Status := 0x1, CP0_Config5 := 0x7, PABITS := 36\<rparr> \<noteq> env_zero\<lparr>CP0_Status := 0x1\<rparr>"
    by (simp add: env_zero_def)
  then show ?thesis
    using interrupt_predicates_pure [where K = mips_arch_defs
      and env = "env_zero\<lparr>CP0_Status := 0x1\<rparr>"
      and env' = "env_zero\<lparr>CP0_Status := 0x1, CP0_Config5 := 0x7, PABITS := 36\<rparr>"]
    by simp
qed

section \<open>VPE and VP activity: results\<close>

text \<open>Claim C6. The VPE is active (the function returns 1, its only other result being
  0) exactly when EVP of MVPControl is set, VPA of VPEConf0 is set, the A bit of the
  active thread context's TCStatus is set and bit 0 of its TCHalt is clear.\<close>

theorem mips_vpe_active_iff:
  "(fst (mips_vpe_active K env) = 1 \<longleftrightarrow>
      bit (CP0_MVPControl (mvp env)) (CP0MVPCo_EVP K) \<and>
      bit (CP0_VPEConf0 env) (CP0VPEC0_VPA K) \<and>
      bit (CP0_TCStatus (active_tc env)) (CP0TCSt_A K) \<and>
      \<not> bit (CP0_TCHalt (active_tc env)) 0) \<and>
   fst (mips_vpe_active K env) \<in> {0, 1}"
  by (simp add: mips_vpe_active_def Let_def shl1_test and_exp_eq_0_iff_not_bit [of _ 0, simplified])

text \<open>An allocated, running thread context on an enabled VPE; the same one halted.\<close>

theorem mips_vpe_active_iff_witness:
  "fst (mips_vpe_active mips_arch_defs
     (env_zero\<lparr>active_tc := (active_tc env_zero)\<lparr>CP0_TCStatus := 0x2000\<rparr>,
               CP0_VPEConf0 := 1, mvp := \<lparr>CP0_MVPControl = 1\<rparr>\<rparr>)) = 1 \<and>
   fst (mips_vpe_active mips_arch_defs
     (env_zero\<lparr>active_tc := (active_tc env_zero)\<lparr>CP0_TCStatus := 0x2000, CP0_TCHalt := 1\<rparr>,
               CP0_VPEConf0 := 1, mvp := \<lparr>CP0_MVPControl = 1\<rparr>\<rparr>)) \<noteq> 1"
  using mips_vpe_active_iff [where K = mips_arch_defs and env =
      "env_zero\<lparr>active_tc := (active_tc env_zero)\<lparr>CP0_TCStatus := 0x2000\<rparr>,
               CP0_VPEConf0 := 1, mvp := \<lparr>CP0_MVPControl = 1\<rparr>\<rparr>"]
    mips_vpe_active_iff [where K = mips_arch_defs and env =
      "env_zero\<lparr>active_tc := (active_tc env_zero)\<lparr>CP0_TCStatus := 0x2000, CP0_TCHalt := 1\<rparr>,
               CP0_VPEConf0 := 1, mvp := \<lparr>CP0_MVPControl = 1\<rparr>\<rparr>"]
  by (simp add: mips_arch_defs_def env_zero_def)

text \<open>Claim C7, as amended. \<^verbatim>\<open>mips_vp_active\<close> has no toggle: the scan of the other virtual
  processors is compiled out, and the function returns 1 (active) on every CPU state,
  leaving the state as it was. This is the scan-disabled behaviour of the specification,
  whatever the other virtual processors are.\<close>

theorem mips_vp_active_unconditional:
  "mips_vp_active K env = (1, env) \<and>
   fst (mips_vp_active K env) = spec_vp_active False K env others"
  by (simp add: mips_vp_active_def spec_vp_active_def)

text \<open>Claim C7 as stated fails: with the scan enabled, a VP that has not disabled the
  others while another VP has its DIS bit set is inactive, yet \<^verbatim>\<open>mips_vp_active\<close>
  returns 1 for it.\<close>

theorem mips_vp_active_no_scan_counterexample:
  "fst (mips_vp_active mips_arch_defs env_zero) \<noteq>
   spec_vp_active True mips_arch_defs env_zero [env_zero\<lparr>CP0_VPControl := 1\<rparr>]"
  by (simp add: mips_vp_active_def spec_vp_active_def vp_disabled_others_def
      mips_arch_defs_def env_zero_def)

section \<open>Masks and the statements of compute_hflags\<close>

lemma within_bits: "bits_within v F \<longleftrightarrow> (\<forall>n. bit v n \<longrightarrow> bit F n)"
proof -
  have "bit v n \<Longrightarrow> n < 32" for n
    using bit_imp_le_length [of v n] by simp
  then show ?thesis
    by (auto simp add: bits_within_def bit_eq_iff bit_simps)
qed

lemma within_self: "bits_within F F"
  by (simp add: within_bits)

lemma within_zero: "bits_within 0 F"
  by (simp add: within_bits)

lemma within_and: "bits_within (x AND F) F"
  by (simp add: within_bits bit_simps)

lemma within_orI1: "bits_within v F \<Longrightarrow> bits_within v (F OR F')"
  by (simp add: within_bits bit_simps)

lemma sets_withinI:
  assumes "e' = e\<lparr>hflags := hflags e OR v\<rparr>" "bits_within v F"
  shows "sets_within F e e'"
proof -
  have "hflags e OR ((hflags e OR v) AND F) = hflags e OR v"
    using assms(2) by (auto simp add: within_bits bit_eq_iff bit_simps)
  then show ?thesis using assms(1) by (simp add: sets_within_def)
qed

lemma sets_within_refl: "sets_within F e e"
  by (rule sets_withinI [where v = 0]) (simp_all add: within_zero)

lemma sets_within_or: "bits_within v F \<Longrightarrow> sets_within F e (e\<lparr>hflags := hflags e OR v\<rparr>)"
  by (rule sets_withinI [where v = v]) simp_all

lemma sets_withinE:
  assumes "sets_within F e e'"
  obtains v where "e' = e\<lparr>hflags := hflags e OR v\<rparr>" "bits_within v F"
proof
  show "e' = e\<lparr>hflags := hflags e OR (hflags e' AND F)\<rparr>"
    using assms by (simp add: sets_within_def)
  show "bits_within (hflags e' AND F) F"
    by (rule within_and)
qed

lemma sets_within_trans:
  assumes "sets_within F e e'" "sets_within F' e' e''"
  shows "sets_within (F OR F') e e''"
proof -
  from assms(1) obtain v where v: "e' = e\<lparr>hflags := hflags e OR v\<rparr>" "bits_within v F"
    by (rule sets_withinE)
  from assms(2) obtain w where w: "e'' = e'\<lparr>hflags := hflags e' OR w\<rparr>" "bits_within w F'"
    by (rule sets_withinE)
  have "e'' = e\<lparr>hflags := hflags e OR (v OR w)\<rparr>"
    using v(1) w(1) by (simp add: or.assoc)
  moreover have "bits_within (v OR w) (F OR F')"
    using v(2) w(2) by (auto simp add: within_bits bit_eq_iff bit_simps)
  ultimately show ?thesis by (rule sets_withinI)
qed

lemma sets_within_trans_same:
  "sets_within F e e' \<Longrightarrow> sets_within F e' e'' \<Longrightarrow> sets_within F e e''"
  using sets_within_trans [of F e e' F e''] by simp

lemma sets_within_mono:
  assumes "sets_within F e e'" "bits_within F F'"
  shows "sets_within F' e e'"
proof -
  from assms(1) obtain v where v: "e' = e\<lparr>hflags := hflags e OR v\<rparr>" "bits_within v F"
    by (rule sets_withinE)
  have "bits_within v F'"
    using v(2) assms(2) by (auto simp add: within_bits bit_eq_iff bit_simps)
  with v(1) show ?thesis by (rule sets_withinI)
qed

lemma sets_within_frame:
  assumes "sets_within F e e'"
  shows "e' = e\<lparr>hflags := hflags e'\<rparr>"
  using assms by (elim sets_withinE) simp

lemma sets_within_keeps:
  assumes "sets_within F e e'" "X AND F = 0"
  shows "hflags e' AND X = hflags e AND X"
proof -
  from assms(1) obtain v where v: "e' = e\<lparr>hflags := hflags e OR v\<rparr>" "bits_within v F"
    by (rule sets_withinE)
  have "(hflags e OR v) AND X = hflags e AND X"
    using v(2) assms(2) by (auto simp add: within_bits bit_eq_iff bit_simps)
  then show ?thesis by (subst v(1)) simp
qed

lemma sets_within_outside:
  assumes "sets_within F e e'"
  shows "hflags e' AND NOT F = hflags e AND NOT F"
proof -
  from assms(1) obtain v where v: "e' = e\<lparr>hflags := hflags e OR v\<rparr>" "bits_within v F"
    by (rule sets_withinE)
  have "(hflags e OR v) AND NOT F = hflags e AND NOT F"
    using v(2) by (auto simp add: within_bits bit_eq_iff bit_simps)
  then show ?thesis by (subst v(1)) simp
qed

lemma sets_within_regs:
  assumes "sets_within F e e'"
  shows "CP0_Status e' = CP0_Status e \<and> insn_flags e' = insn_flags e \<and>
         CP0_Config5 e' = CP0_Config5 e \<and> active_fpu e' = active_fpu e"
proof -
  have "e' = e\<lparr>hflags := hflags e'\<rparr>"
    using assms by (rule sets_within_frame)
  then obtain h where "e' = e\<lparr>hflags := h\<rparr>" ..
  then show ?thesis by simp
qed

lemma sets_ERL: "sets_within (MIPS_HFLAG_ERL K) env (hflags_ERL K env)"
  by (simp add: hflags_ERL_def sets_within_refl sets_within_or within_self within_and)

lemma sets_KSU: "sets_within (MIPS_HFLAG_KSU K) env (hflags_KSU K env)"
  by (simp add: hflags_KSU_def sets_within_refl sets_within_or within_self within_and)

lemma sets_64: "sets_within (MIPS_HFLAG_64 K) env (hflags_64 K env)"
  by (simp add: hflags_64_def sets_within_refl sets_within_or within_self within_and)

lemma sets_AWRAP: "sets_within (MIPS_HFLAG_AWRAP K) env (hflags_AWRAP K env)"
  by (simp add: hflags_AWRAP_def sets_within_refl sets_within_or within_self within_and)

lemma sets_CP0: "sets_within (MIPS_HFLAG_CP0 K) env (hflags_CP0 K env)"
  by (simp add: hflags_CP0_def sets_within_refl sets_within_or within_self within_and)

lemma sets_FPU: "sets_within (MIPS_HFLAG_FPU K) env (hflags_FPU K env)"
  by (simp add: hflags_FPU_def sets_within_refl sets_within_or within_self within_and)

lemma sets_F64: "sets_within (MIPS_HFLAG_F64 K) env (hflags_F64 K env)"
  by (simp add: hflags_F64_def sets_within_refl sets_within_or within_self within_and)

lemma sets_SBRI: "sets_within (MIPS_HFLAG_SBRI K) env (hflags_SBRI K env)"
  by (simp add: hflags_SBRI_def sets_within_refl sets_within_or within_self within_and)

lemma sets_DSP: "sets_within (MIPS_HFLAG_DSP K OR MIPS_HFLAG_DSPR2 K) env (hflags_DSP K env)"
  by (simp add: hflags_DSP_def sets_within_refl sets_within_or within_self within_orI1)

lemma sets_COP1X: "sets_within (MIPS_HFLAG_COP1X K) env (hflags_COP1X K env)"
  by (simp add: hflags_COP1X_def sets_within_refl sets_within_or within_self within_and)

lemma sets_MSA: "sets_within (MIPS_HFLAG_MSA K) env (hflags_MSA K env)"
  by (simp add: hflags_MSA_def sets_within_refl sets_within_or within_self within_and)

lemma sets_FRE: "sets_within (MIPS_HFLAG_FRE K) env (hflags_FRE K env)"
  by (simp add: hflags_FRE_def sets_within_refl sets_within_or within_self within_and)

lemma sets_ELPA: "sets_within (MIPS_HFLAG_ELPA K) env (hflags_ELPA K env)"
  by (simp add: hflags_ELPA_def sets_within_refl sets_within_or within_self within_and)

lemma within_clear_mask:
  "bits_within (MIPS_HFLAG_COP1X K) (hflags_clear_mask K)"
  "bits_within (MIPS_HFLAG_64 K) (hflags_clear_mask K)"
  "bits_within (MIPS_HFLAG_CP0 K) (hflags_clear_mask K)"
  "bits_within (MIPS_HFLAG_F64 K) (hflags_clear_mask K)"
  "bits_within (MIPS_HFLAG_FPU K) (hflags_clear_mask K)"
  "bits_within (MIPS_HFLAG_KSU K) (hflags_clear_mask K)"
  "bits_within (MIPS_HFLAG_AWRAP K) (hflags_clear_mask K)"
  "bits_within (MIPS_HFLAG_DSP K OR MIPS_HFLAG_DSPR2 K) (hflags_clear_mask K)"
  "bits_within (MIPS_HFLAG_SBRI K) (hflags_clear_mask K)"
  "bits_within (MIPS_HFLAG_MSA K) (hflags_clear_mask K)"
  "bits_within (MIPS_HFLAG_FRE K) (hflags_clear_mask K)"
  "bits_within (MIPS_HFLAG_ELPA K) (hflags_clear_mask K)"
  "bits_within (MIPS_HFLAG_ERL K) (hflags_clear_mask K)"
  by (simp_all add: within_bits hflags_clear_mask_def bit_simps)

lemmas sets_clear_mask =
  sets_ERL [THEN sets_within_mono, OF within_clear_mask(13)]
  sets_KSU [THEN sets_within_mono, OF within_clear_mask(6)]
  sets_64 [THEN sets_within_mono, OF within_clear_mask(2)]
  sets_AWRAP [THEN sets_within_mono, OF within_clear_mask(7)]
  sets_CP0 [THEN sets_within_mono, OF within_clear_mask(3)]
  sets_FPU [THEN sets_within_mono, OF within_clear_mask(5)]
  sets_F64 [THEN sets_within_mono, OF within_clear_mask(4)]
  sets_SBRI [THEN sets_within_mono, OF within_clear_mask(9)]
  sets_DSP [THEN sets_within_mono, OF within_clear_mask(8)]
  sets_COP1X [THEN sets_within_mono, OF within_clear_mask(1)]
  sets_MSA [THEN sets_within_mono, OF within_clear_mask(10)]
  sets_FRE [THEN sets_within_mono, OF within_clear_mask(11)]
  sets_ELPA [THEN sets_within_mono, OF within_clear_mask(12)]

lemma sets_tail: "sets_within (hflags_clear_mask K) env (hflags_tail K env)"
  unfolding hflags_tail_def Let_def
  by (intro sets_within_trans_same [OF _ sets_clear_mask(13)]
            sets_within_trans_same [OF _ sets_clear_mask(12)]
            sets_within_trans_same [OF _ sets_clear_mask(11)]
            sets_within_trans_same [OF _ sets_clear_mask(10)]
            sets_within_trans_same [OF _ sets_clear_mask(9)]
            sets_within_trans_same [OF _ sets_clear_mask(8)]
            sets_within_trans_same [OF _ sets_clear_mask(7)]
            sets_clear_mask(6))

lemma sets_mips64:
  "sets_within (hflags_clear_mask K) env
     (if TARGET_MIPS64 K then hflags_AWRAP K (hflags_64 K env) else env)"
  by (simp add: sets_within_refl sets_within_trans_same [OF sets_clear_mask(3) sets_clear_mask(4)])

text \<open>The statements after the clearing of line 251 only set bits of the cleared mask.\<close>

lemma compute_hflags_sets:
  "sets_within (hflags_clear_mask K) (hflags_clear K env) (compute_hflags K env)"
  unfolding compute_hflags_def Let_def
  by (intro sets_within_trans_same [OF _ sets_tail]
            sets_within_trans_same [OF _ sets_clear_mask(5)]
            sets_within_trans_same [OF _ sets_mips64]
            sets_within_trans_same [OF _ sets_clear_mask(2)]
            sets_clear_mask(1))

lemma compute_hflags_frame:
  "compute_hflags K env = env\<lparr>hflags := hflags (compute_hflags K env)\<rparr>"
proof -
  have "compute_hflags K env = (hflags_clear K env)\<lparr>hflags := hflags (compute_hflags K env)\<rparr>"
    by (rule sets_within_frame [OF compute_hflags_sets])
  then show ?thesis by (simp add: hflags_clear_def)
qed

lemma compute_hflags_outside:
  "hflags (compute_hflags K env) AND NOT (hflags_clear_mask K) =
   hflags env AND NOT (hflags_clear_mask K)"
  using sets_within_outside [OF compute_hflags_sets, of K env]
  by (simp add: hflags_clear_def)

lemma hflags_clear_compute:
  "hflags_clear K (compute_hflags K env) = hflags_clear K env"
proof -
  have "hflags_clear K (compute_hflags K env) =
        (compute_hflags K env)\<lparr>hflags := hflags env AND NOT (hflags_clear_mask K)\<rparr>"
    by (simp add: hflags_clear_def compute_hflags_outside)
  also have "\<dots> = (env\<lparr>hflags := hflags (compute_hflags K env)\<rparr>)
                    \<lparr>hflags := hflags env AND NOT (hflags_clear_mask K)\<rparr>"
    using compute_hflags_frame [of K env] by simp
  also have "\<dots> = hflags_clear K env"
    by (simp add: hflags_clear_def)
  finally show ?thesis .
qed

lemma compute_hflags_via_clear:
  "compute_hflags K env = compute_hflags K (hflags_clear K env)"
  by (simp add: compute_hflags_def Let_def hflags_clear_def)

section \<open>Recomputation of the mode flags: idempotence and frame\<close>

text \<open>Claim C4. Running \<^verbatim>\<open>compute_hflags\<close> a second time, right after the first and with
  nothing changed in between, leaves the mode flags (and the whole state) exactly as
  the first run left them. This holds for every value of the macros.\<close>

theorem compute_hflags_idempotent:
  "compute_hflags K (compute_hflags K env) = compute_hflags K env \<and>
   hflags (compute_hflags K (compute_hflags K env)) = hflags (compute_hflags K env)"
proof -
  have "compute_hflags K (compute_hflags K env) =
        compute_hflags K (hflags_clear K (compute_hflags K env))"
    by (rule compute_hflags_via_clear)
  also have "\<dots> = compute_hflags K (hflags_clear K env)"
    by (simp only: hflags_clear_compute)
  also have "\<dots> = compute_hflags K env"
    by (rule compute_hflags_via_clear [symmetric])
  finally show ?thesis by simp
qed

text \<open>The second run on a user-mode state with stale mode flags.\<close>

theorem compute_hflags_idempotent_witness:
  "hflags (compute_hflags mips_arch_defs
             (compute_hflags mips_arch_defs (env_zero\<lparr>CP0_Status := 0x10, hflags := 0x7\<rparr>))) =
   hflags (compute_hflags mips_arch_defs (env_zero\<lparr>CP0_Status := 0x10, hflags := 0x7\<rparr>))"
  by (rule compute_hflags_idempotent [THEN conjunct2])

text \<open>Claim C5. \<^verbatim>\<open>compute_hflags\<close> writes \<^verbatim>\<open>hflags\<close> only: the state after the call is the
  state before it with a new \<^verbatim>\<open>hflags\<close>, so the control registers, the thread context,
  the floating-point context, the MVP context and the TLB context are unchanged.\<close>

theorem compute_hflags_writes_only_hflags:
  "compute_hflags K env = env\<lparr>hflags := hflags (compute_hflags K env)\<rparr> \<and>
   active_tc (compute_hflags K env) = active_tc env \<and>
   active_fpu (compute_hflags K env) = active_fpu env \<and>
   PABITS (compute_hflags K env) = PABITS env \<and>
   PAMask (compute_hflags K env) = PAMask env \<and>
   CP0_VPControl (compute_hflags K env) = CP0_VPControl env \<and>
   CP0_VPEConf0 (compute_hflags K env) = CP0_VPEConf0 env \<and>
   CP0_PageGrain (compute_hflags K env) = CP0_PageGrain env \<and>
   CP0_Status (compute_hflags K env) = CP0_Status env \<and>
   CP0_Cause (compute_hflags K env) = CP0_Cause env \<and>
   CP0_Config3 (compute_hflags K env) = CP0_Config3 env \<and>
   CP0_Config5 (compute_hflags K env) = CP0_Config5 env \<and>
   insn_flags (compute_hflags K env) = insn_flags env \<and>
   mvp (compute_hflags K env) = mvp env \<and>
   tlb (compute_hflags K env) = tlb env"
proof -
  obtain h where h: "compute_hflags K env = env\<lparr>hflags := h\<rparr>"
    using compute_hflags_frame [of K env] by blast
  show ?thesis by (simp add: h)
qed

text \<open>The Status register and the TLB context after a run.\<close>

theorem compute_hflags_writes_only_hflags_witness:
  "CP0_Status (compute_hflags mips_arch_defs (env_zero\<lparr>CP0_Status := 0x10, hflags := 0x7\<rparr>)) = 0x10 \<and>
   tlb (compute_hflags mips_arch_defs (env_zero\<lparr>CP0_Status := 0x10, hflags := 0x7\<rparr>)) =
     tlb env_zero"
  using compute_hflags_writes_only_hflags
    [of mips_arch_defs "env_zero\<lparr>CP0_Status := 0x10, hflags := 0x7\<rparr>"]
  by simp

section \<open>Recomputation of the mode flags: the privilege field\<close>

lemmas step_regs =
  sets_within_regs [OF sets_ERL]
  sets_within_regs [OF sets_KSU]
  sets_within_regs [OF sets_64]
  sets_within_regs [OF sets_AWRAP]
  sets_within_regs [OF sets_CP0]
  sets_within_regs [OF sets_FPU]
  sets_within_regs [OF sets_F64]
  sets_within_regs [OF sets_SBRI]
  sets_within_regs [OF sets_COP1X]
  sets_within_regs [OF sets_MSA]
  sets_within_regs [OF sets_FRE]
  sets_within_regs [OF sets_ELPA]
  sets_within_regs [OF sets_DSP]

lemma layout_disjoint:
  assumes "hflags_layout K"
  shows
  "MIPS_HFLAG_KSU K AND MIPS_HFLAG_COP1X K = 0"
  "MIPS_HFLAG_KSU K AND MIPS_HFLAG_64 K = 0"
  "MIPS_HFLAG_KSU K AND MIPS_HFLAG_CP0 K = 0"
  "MIPS_HFLAG_KSU K AND MIPS_HFLAG_F64 K = 0"
  "MIPS_HFLAG_KSU K AND MIPS_HFLAG_FPU K = 0"
  "MIPS_HFLAG_KSU K AND MIPS_HFLAG_AWRAP K = 0"
  "MIPS_HFLAG_KSU K AND MIPS_HFLAG_DSP K = 0"
  "MIPS_HFLAG_KSU K AND MIPS_HFLAG_DSPR2 K = 0"
  "MIPS_HFLAG_KSU K AND MIPS_HFLAG_SBRI K = 0"
  "MIPS_HFLAG_KSU K AND MIPS_HFLAG_MSA K = 0"
  "MIPS_HFLAG_KSU K AND MIPS_HFLAG_FRE K = 0"
  "MIPS_HFLAG_KSU K AND MIPS_HFLAG_ELPA K = 0"
  "MIPS_HFLAG_KSU K AND MIPS_HFLAG_ERL K = 0"
  "MIPS_HFLAG_DM K AND MIPS_HFLAG_COP1X K = 0"
  "MIPS_HFLAG_DM K AND MIPS_HFLAG_64 K = 0"
  "MIPS_HFLAG_DM K AND MIPS_HFLAG_CP0 K = 0"
  "MIPS_HFLAG_DM K AND MIPS_HFLAG_F64 K = 0"
  "MIPS_HFLAG_DM K AND MIPS_HFLAG_FPU K = 0"
  "MIPS_HFLAG_DM K AND MIPS_HFLAG_KSU K = 0"
  "MIPS_HFLAG_DM K AND MIPS_HFLAG_AWRAP K = 0"
  "MIPS_HFLAG_DM K AND MIPS_HFLAG_DSP K = 0"
  "MIPS_HFLAG_DM K AND MIPS_HFLAG_DSPR2 K = 0"
  "MIPS_HFLAG_DM K AND MIPS_HFLAG_SBRI K = 0"
  "MIPS_HFLAG_DM K AND MIPS_HFLAG_MSA K = 0"
  "MIPS_HFLAG_DM K AND MIPS_HFLAG_FRE K = 0"
  "MIPS_HFLAG_DM K AND MIPS_HFLAG_ELPA K = 0"
  "MIPS_HFLAG_DM K AND MIPS_HFLAG_ERL K = 0"
  "MIPS_HFLAG_64 K AND MIPS_HFLAG_COP1X K = 0"
  "MIPS_HFLAG_64 K AND MIPS_HFLAG_CP0 K = 0"
  "MIPS_HFLAG_64 K AND MIPS_HFLAG_F64 K = 0"
  "MIPS_HFLAG_64 K AND MIPS_HFLAG_FPU K = 0"
  "MIPS_HFLAG_64 K AND MIPS_HFLAG_KSU K = 0"
  "MIPS_HFLAG_64 K AND MIPS_HFLAG_AWRAP K = 0"
  "MIPS_HFLAG_64 K AND MIPS_HFLAG_DSP K = 0"
  "MIPS_HFLAG_64 K AND MIPS_HFLAG_DSPR2 K = 0"
  "MIPS_HFLAG_64 K AND MIPS_HFLAG_SBRI K = 0"
  "MIPS_HFLAG_64 K AND MIPS_HFLAG_MSA K = 0"
  "MIPS_HFLAG_64 K AND MIPS_HFLAG_FRE K = 0"
  "MIPS_HFLAG_64 K AND MIPS_HFLAG_ELPA K = 0"
  "MIPS_HFLAG_64 K AND MIPS_HFLAG_ERL K = 0"
  "MIPS_HFLAG_AWRAP K AND MIPS_HFLAG_COP1X K = 0"
  "MIPS_HFLAG_AWRAP K AND MIPS_HFLAG_64 K = 0"
  "MIPS_HFLAG_AWRAP K AND MIPS_HFLAG_CP0 K = 0"
  "MIPS_HFLAG_AWRAP K AND MIPS_HFLAG_F64 K = 0"
  "MIPS_HFLAG_AWRAP K AND MIPS_HFLAG_FPU K = 0"
  "MIPS_HFLAG_AWRAP K AND MIPS_HFLAG_KSU K = 0"
  "MIPS_HFLAG_AWRAP K AND MIPS_HFLAG_DSP K = 0"
  "MIPS_HFLAG_AWRAP K AND MIPS_HFLAG_DSPR2 K = 0"
  "MIPS_HFLAG_AWRAP K AND MIPS_HFLAG_SBRI K = 0"
  "MIPS_HFLAG_AWRAP K AND MIPS_HFLAG_MSA K = 0"
  "MIPS_HFLAG_AWRAP K AND MIPS_HFLAG_FRE K = 0"
  "MIPS_HFLAG_AWRAP K AND MIPS_HFLAG_ELPA K = 0"
  "MIPS_HFLAG_AWRAP K AND MIPS_HFLAG_ERL K = 0"
  "MIPS_HFLAG_CP0 K AND MIPS_HFLAG_COP1X K = 0"
  "MIPS_HFLAG_CP0 K AND MIPS_HFLAG_64 K = 0"
  "MIPS_HFLAG_CP0 K AND MIPS_HFLAG_F64 K = 0"
  "MIPS_HFLAG_CP0 K AND MIPS_HFLAG_FPU K = 0"
  "MIPS_HFLAG_CP0 K AND MIPS_HFLAG_KSU K = 0"
  "MIPS_HFLAG_CP0 K AND MIPS_HFLAG_AWRAP K = 0"
  "MIPS_HFLAG_CP0 K AND MIPS_HFLAG_DSP K = 0"
  "MIPS_HFLAG_CP0 K AND MIPS_HFLAG_DSPR2 K = 0"
  "MIPS_HFLAG_CP0 K AND MIPS_HFLAG_SBRI K = 0"
  "MIPS_HFLAG_CP0 K AND MIPS_HFLAG_MSA K = 0"
  "MIPS_HFLAG_CP0 K AND MIPS_HFLAG_FRE K = 0"
  "MIPS_HFLAG_CP0 K AND MIPS_HFLAG_ELPA K = 0"
  "MIPS_HFLAG_CP0 K AND MIPS_HFLAG_ERL K = 0"
  "MIPS_HFLAG_SBRI K AND MIPS_HFLAG_COP1X K = 0"
  "MIPS_HFLAG_SBRI K AND MIPS_HFLAG_64 K = 0"
  "MIPS_HFLAG_SBRI K AND MIPS_HFLAG_CP0 K = 0"
  "MIPS_HFLAG_SBRI K AND MIPS_HFLAG_F64 K = 0"
  "MIPS_HFLAG_SBRI K AND MIPS_HFLAG_FPU K = 0"
  "MIPS_HFLAG_SBRI K AND MIPS_HFLAG_KSU K = 0"
  "MIPS_HFLAG_SBRI K AND MIPS_HFLAG_AWRAP K = 0"
  "MIPS_HFLAG_SBRI K AND MIPS_HFLAG_DSP K = 0"
  "MIPS_HFLAG_SBRI K AND MIPS_HFLAG_DSPR2 K = 0"
  "MIPS_HFLAG_SBRI K AND MIPS_HFLAG_MSA K = 0"
  "MIPS_HFLAG_SBRI K AND MIPS_HFLAG_FRE K = 0"
  "MIPS_HFLAG_SBRI K AND MIPS_HFLAG_ELPA K = 0"
  "MIPS_HFLAG_SBRI K AND MIPS_HFLAG_ERL K = 0"
  "MIPS_HFLAG_COP1X K AND MIPS_HFLAG_64 K = 0"
  "MIPS_HFLAG_COP1X K AND MIPS_HFLAG_CP0 K = 0"
  "MIPS_HFLAG_COP1X K AND MIPS_HFLAG_F64 K = 0"
  "MIPS_HFLAG_COP1X K AND MIPS_HFLAG_FPU K = 0"
  "MIPS_HFLAG_COP1X K AND MIPS_HFLAG_KSU K = 0"
  "MIPS_HFLAG_COP1X K AND MIPS_HFLAG_AWRAP K = 0"
  "MIPS_HFLAG_COP1X K AND MIPS_HFLAG_DSP K = 0"
  "MIPS_HFLAG_COP1X K AND MIPS_HFLAG_DSPR2 K = 0"
  "MIPS_HFLAG_COP1X K AND MIPS_HFLAG_SBRI K = 0"
  "MIPS_HFLAG_COP1X K AND MIPS_HFLAG_MSA K = 0"
  "MIPS_HFLAG_COP1X K AND MIPS_HFLAG_FRE K = 0"
  "MIPS_HFLAG_COP1X K AND MIPS_HFLAG_ELPA K = 0"
  "MIPS_HFLAG_COP1X K AND MIPS_HFLAG_ERL K = 0"
  using assms by (simp_all add: hflags_layout_def hflag_masks_def and.commute)

lemma layout_nonzero:
  assumes "hflags_layout K"
  shows "MIPS_HFLAG_CP0 K \<noteq> 0" "MIPS_HFLAG_SBRI K \<noteq> 0" "MIPS_HFLAG_64 K \<noteq> 0"
    "MIPS_HFLAG_AWRAP K \<noteq> 0" "MIPS_HFLAG_COP1X K \<noteq> 0"
  using assms by (simp_all add: hflags_layout_def hflag_masks_def)

lemma arch_layout: "hflags_layout mips_arch_defs"
  by (simp add: hflags_layout_def hflag_masks_def mips_arch_defs_def)

lemma step_keeps:
  "X AND MIPS_HFLAG_ERL K = 0 \<Longrightarrow> hflags (hflags_ERL K env) AND X = hflags env AND X"
  "X AND MIPS_HFLAG_KSU K = 0 \<Longrightarrow> hflags (hflags_KSU K env) AND X = hflags env AND X"
  "X AND MIPS_HFLAG_64 K = 0 \<Longrightarrow> hflags (hflags_64 K env) AND X = hflags env AND X"
  "X AND MIPS_HFLAG_AWRAP K = 0 \<Longrightarrow> hflags (hflags_AWRAP K env) AND X = hflags env AND X"
  "X AND MIPS_HFLAG_CP0 K = 0 \<Longrightarrow> hflags (hflags_CP0 K env) AND X = hflags env AND X"
  "X AND MIPS_HFLAG_FPU K = 0 \<Longrightarrow> hflags (hflags_FPU K env) AND X = hflags env AND X"
  "X AND MIPS_HFLAG_F64 K = 0 \<Longrightarrow> hflags (hflags_F64 K env) AND X = hflags env AND X"
  "X AND MIPS_HFLAG_SBRI K = 0 \<Longrightarrow> hflags (hflags_SBRI K env) AND X = hflags env AND X"
  "X AND MIPS_HFLAG_COP1X K = 0 \<Longrightarrow> hflags (hflags_COP1X K env) AND X = hflags env AND X"
  "X AND MIPS_HFLAG_MSA K = 0 \<Longrightarrow> hflags (hflags_MSA K env) AND X = hflags env AND X"
  "X AND MIPS_HFLAG_FRE K = 0 \<Longrightarrow> hflags (hflags_FRE K env) AND X = hflags env AND X"
  "X AND MIPS_HFLAG_ELPA K = 0 \<Longrightarrow> hflags (hflags_ELPA K env) AND X = hflags env AND X"
  by (erule sets_within_keeps [OF sets_ERL] sets_within_keeps [OF sets_KSU]
            sets_within_keeps [OF sets_64] sets_within_keeps [OF sets_AWRAP]
            sets_within_keeps [OF sets_CP0] sets_within_keeps [OF sets_FPU]
            sets_within_keeps [OF sets_F64] sets_within_keeps [OF sets_SBRI]
            sets_within_keeps [OF sets_COP1X] sets_within_keeps [OF sets_MSA]
            sets_within_keeps [OF sets_FRE] sets_within_keeps [OF sets_ELPA])+

lemma step_keeps_DSP:
  "X AND MIPS_HFLAG_DSP K = 0 \<Longrightarrow> X AND MIPS_HFLAG_DSPR2 K = 0 \<Longrightarrow>
   hflags (hflags_DSP K env) AND X = hflags env AND X"
  by (rule sets_within_keeps [OF sets_DSP]) (simp add: bit.conj_disj_distrib)

lemma cleared_flag:
  "bits_within X (hflags_clear_mask K) \<Longrightarrow> hflags (hflags_clear K env) AND X = 0"
  by (auto simp add: hflags_clear_def within_bits bit_eq_iff bit_simps)

lemma cleared_regs:
  "CP0_Status (hflags_clear K env) = CP0_Status env"
  "insn_flags (hflags_clear K env) = insn_flags env"
  "CP0_Config5 (hflags_clear K env) = CP0_Config5 env"
  "active_fpu (hflags_clear K env) = active_fpu env"
  by (simp_all add: hflags_clear_def)

lemma or_and_same: "(h OR X) AND X = (X :: 32 word)"
  by (simp add: bit_eq_iff bit_simps)

lemma bit_signed_drop_bit_32:
  fixes w :: "32 word"
  assumes "i + n < 32"
  shows "bit (signed_drop_bit n w) i \<longleftrightarrow> bit w (i + n)"
proof -
  have "\<not> (LENGTH(32) - n \<le> i \<and> i < LENGTH(32))"
    using assms by simp
  then show ?thesis
    by (simp only: bit_signed_drop_bit_iff if_False add.commute)
qed

text \<open>The debug-mode flag as line 261 reads it, and the privilege field after line 263.\<close>

lemma hflags_DM_before_KSU:
  assumes "hflags_layout K"
  shows "hflags (hflags_ERL K (hflags_clear K env)) AND MIPS_HFLAG_DM K =
         hflags env AND MIPS_HFLAG_DM K"
proof -
  have "MIPS_HFLAG_DM K AND hflags_clear_mask K = 0"
    by (simp add: hflags_clear_mask_def bit.conj_disj_distrib layout_disjoint [OF assms])
  then have "hflags (hflags_clear K env) AND MIPS_HFLAG_DM K = hflags env AND MIPS_HFLAG_DM K"
    by (auto simp add: hflags_clear_def bit_eq_iff bit_simps)
  then show ?thesis
    by (simp add: step_keeps layout_disjoint [OF assms])
qed

lemma hflags_KSU_after_KSU:
  assumes "hflags_layout K"
  shows "hflags (hflags_KSU K (hflags_ERL K (hflags_clear K env))) AND MIPS_HFLAG_KSU K =
         (if privileged_state K env then 0
          else signed_drop_bit (CP0St_KSU K) (CP0_Status env) AND MIPS_HFLAG_KSU K)"
proof -
  let ?e2 = "hflags_ERL K (hflags_clear K env)"
  have z: "hflags ?e2 AND MIPS_HFLAG_KSU K = 0"
    by (simp add: step_keeps layout_disjoint [OF assms] cleared_flag within_clear_mask)
  have r: "CP0_Status ?e2 = CP0_Status env"
    by (simp add: step_regs cleared_regs)
  have "(hflags ?e2 OR (x AND MIPS_HFLAG_KSU K)) AND MIPS_HFLAG_KSU K = x AND MIPS_HFLAG_KSU K" for x
    using z by (auto simp add: bit_eq_iff bit_simps)
  then show ?thesis
    using z by (simp add: hflags_KSU_def r hflags_DM_before_KSU [OF assms]
        privileged_state_def shl1_test)
qed

text \<open>No later statement touches the privilege field, and each flag that depends on it is
  decided by the statement that sets it, which reads the field as line 262 left it.\<close>

lemma hflags_KSU_final:
  assumes "hflags_layout K"
  shows "hflags (compute_hflags K env) AND MIPS_HFLAG_KSU K =
         hflags (hflags_KSU K (hflags_ERL K (hflags_clear K env))) AND MIPS_HFLAG_KSU K"
  by (simp add: compute_hflags_def hflags_tail_def Let_def step_keeps step_keeps_DSP
      layout_disjoint [OF assms])

lemma hflags_CP0_final:
  assumes "hflags_layout K"
  shows "hflags (compute_hflags K env) AND MIPS_HFLAG_CP0 K =
         (if (bit (CP0_Status env) (CP0St_CU0 K) \<and> insn_flags env AND ISA_MIPS32R6 K = 0) \<or>
             hflags (compute_hflags K env) AND MIPS_HFLAG_KSU K = 0
          then MIPS_HFLAG_CP0 K else 0)"
proof -
  let ?e3 = "hflags_KSU K (hflags_ERL K (hflags_clear K env))"
  let ?e4 = "if TARGET_MIPS64 K then hflags_AWRAP K (hflags_64 K ?e3) else ?e3"
  have k: "hflags ?e4 AND MIPS_HFLAG_KSU K = hflags (compute_hflags K env) AND MIPS_HFLAG_KSU K"
    by (simp add: hflags_KSU_final [OF assms] step_keeps layout_disjoint [OF assms])
  have z: "hflags ?e4 AND MIPS_HFLAG_CP0 K = 0"
    by (simp add: step_keeps layout_disjoint [OF assms] cleared_flag within_clear_mask)
  have r: "CP0_Status ?e4 = CP0_Status env" "insn_flags ?e4 = insn_flags env"
    by (simp_all add: step_regs cleared_regs)
  have "hflags (compute_hflags K env) AND MIPS_HFLAG_CP0 K = hflags (hflags_CP0 K ?e4) AND MIPS_HFLAG_CP0 K"
    by (simp add: compute_hflags_def hflags_tail_def Let_def step_keeps step_keeps_DSP
      layout_disjoint [OF assms])
  also have "\<dots> = (if (bit (CP0_Status env) (CP0St_CU0 K) \<and> insn_flags env AND ISA_MIPS32R6 K = 0) \<or>
             hflags (compute_hflags K env) AND MIPS_HFLAG_KSU K = 0
          then MIPS_HFLAG_CP0 K else 0)"
    unfolding hflags_CP0_def r k [symmetric] using z
    by (simp add: shl1_test or_and_same)
  finally show ?thesis .
qed

lemma hflags_SBRI_final:
  assumes "hflags_layout K"
  shows "hflags (compute_hflags K env) AND MIPS_HFLAG_SBRI K =
         (if hflags (compute_hflags K env) AND MIPS_HFLAG_KSU K \<noteq> MIPS_HFLAG_KM K \<and>
             bit (CP0_Config5 env) (CP0C5_SBRI K)
          then MIPS_HFLAG_SBRI K else 0)"
proof -
  let ?e3 = "hflags_KSU K (hflags_ERL K (hflags_clear K env))"
  let ?e4 = "if TARGET_MIPS64 K then hflags_AWRAP K (hflags_64 K ?e3) else ?e3"
  let ?e6 = "hflags_F64 K (hflags_FPU K (hflags_CP0 K ?e4))"
  have k: "hflags ?e6 AND MIPS_HFLAG_KSU K = hflags (compute_hflags K env) AND MIPS_HFLAG_KSU K"
    by (simp add: hflags_KSU_final [OF assms] step_keeps layout_disjoint [OF assms])
  have z: "hflags ?e6 AND MIPS_HFLAG_SBRI K = 0"
    by (simp add: step_keeps layout_disjoint [OF assms] cleared_flag within_clear_mask)
  have r: "CP0_Config5 ?e6 = CP0_Config5 env"
    by (simp add: step_regs cleared_regs)
  have "hflags (compute_hflags K env) AND MIPS_HFLAG_SBRI K =
        hflags (hflags_SBRI K ?e6) AND MIPS_HFLAG_SBRI K"
    by (simp add: compute_hflags_def hflags_tail_def Let_def step_keeps step_keeps_DSP
      layout_disjoint [OF assms])
  also have "\<dots> = (if hflags (compute_hflags K env) AND MIPS_HFLAG_KSU K \<noteq> MIPS_HFLAG_KM K \<and>
             bit (CP0_Config5 env) (CP0C5_SBRI K)
          then MIPS_HFLAG_SBRI K else 0)"
    unfolding hflags_SBRI_def r k [symmetric] using z
    by (simp add: shl1_test or_and_same)
  finally show ?thesis .
qed

lemma hflags_64_final:
  assumes "hflags_layout K"
  shows "hflags (compute_hflags K env) AND MIPS_HFLAG_64 K =
         (if TARGET_MIPS64 K \<and> insn_flags env AND ISA_MIPS3 K \<noteq> 0 \<and>
             (hflags (compute_hflags K env) AND MIPS_HFLAG_KSU K \<noteq> MIPS_HFLAG_UM K \<or>
              bit (CP0_Status env) (CP0St_PX K) \<or> bit (CP0_Status env) (CP0St_UX K))
          then MIPS_HFLAG_64 K else 0)"
proof -
  let ?e3 = "hflags_KSU K (hflags_ERL K (hflags_clear K env))"
  have k: "hflags ?e3 AND MIPS_HFLAG_KSU K = hflags (compute_hflags K env) AND MIPS_HFLAG_KSU K"
    by (simp add: hflags_KSU_final [OF assms])
  have z: "hflags ?e3 AND MIPS_HFLAG_64 K = 0"
    by (simp add: step_keeps layout_disjoint [OF assms] cleared_flag within_clear_mask)
  have r: "CP0_Status ?e3 = CP0_Status env" "insn_flags ?e3 = insn_flags env"
    by (simp_all add: step_regs cleared_regs)
  have "hflags (compute_hflags K env) AND MIPS_HFLAG_64 K =
        (if TARGET_MIPS64 K then hflags (hflags_64 K ?e3) AND MIPS_HFLAG_64 K else 0)"
    using z by (simp add: compute_hflags_def hflags_tail_def Let_def step_keeps step_keeps_DSP
      layout_disjoint [OF assms])
  also have "\<dots> = (if TARGET_MIPS64 K \<and> insn_flags env AND ISA_MIPS3 K \<noteq> 0 \<and>
             (hflags (compute_hflags K env) AND MIPS_HFLAG_KSU K \<noteq> MIPS_HFLAG_UM K \<or>
              bit (CP0_Status env) (CP0St_PX K) \<or> bit (CP0_Status env) (CP0St_UX K))
          then MIPS_HFLAG_64 K else 0)"
    unfolding hflags_64_def r k [symmetric] using z
    by (simp add: shl1_test or_and_same)
  finally show ?thesis .
qed

lemma hflags_AWRAP_final:
  assumes "hflags_layout K"
  shows "hflags (compute_hflags K env) AND MIPS_HFLAG_AWRAP K =
         (if TARGET_MIPS64 K \<and>
             (insn_flags env AND ISA_MIPS3 K = 0 \<or>
              (hflags (compute_hflags K env) AND MIPS_HFLAG_KSU K = MIPS_HFLAG_UM K \<and>
               \<not> bit (CP0_Status env) (CP0St_UX K)) \<or>
              (insn_flags env AND ISA_MIPS64R6 K \<noteq> 0 \<and>
               ((hflags (compute_hflags K env) AND MIPS_HFLAG_KSU K = MIPS_HFLAG_SM K \<and>
                 \<not> bit (CP0_Status env) (CP0St_SX K)) \<or>
                (hflags (compute_hflags K env) AND MIPS_HFLAG_KSU K = MIPS_HFLAG_KM K \<and>
                 \<not> bit (CP0_Status env) (CP0St_KX K)))))
          then MIPS_HFLAG_AWRAP K else 0)"
proof -
  let ?e3 = "hflags_KSU K (hflags_ERL K (hflags_clear K env))"
  let ?e3a = "hflags_64 K ?e3"
  have k: "hflags ?e3a AND MIPS_HFLAG_KSU K = hflags (compute_hflags K env) AND MIPS_HFLAG_KSU K"
    by (simp add: hflags_KSU_final [OF assms] step_keeps layout_disjoint [OF assms])
  have z: "hflags ?e3a AND MIPS_HFLAG_AWRAP K = 0" "hflags ?e3 AND MIPS_HFLAG_AWRAP K = 0"
    by (simp_all add: step_keeps layout_disjoint [OF assms] cleared_flag within_clear_mask)
  have r: "CP0_Status ?e3a = CP0_Status env" "insn_flags ?e3a = insn_flags env"
    by (simp_all add: step_regs cleared_regs)
  have "hflags (compute_hflags K env) AND MIPS_HFLAG_AWRAP K =
        (if TARGET_MIPS64 K then hflags (hflags_AWRAP K ?e3a) AND MIPS_HFLAG_AWRAP K else 0)"
    using z by (simp add: compute_hflags_def hflags_tail_def Let_def step_keeps step_keeps_DSP
      layout_disjoint [OF assms])
  also have "\<dots> = (if TARGET_MIPS64 K \<and>
             (insn_flags env AND ISA_MIPS3 K = 0 \<or>
              (hflags (compute_hflags K env) AND MIPS_HFLAG_KSU K = MIPS_HFLAG_UM K \<and>
               \<not> bit (CP0_Status env) (CP0St_UX K)) \<or>
              (insn_flags env AND ISA_MIPS64R6 K \<noteq> 0 \<and>
               ((hflags (compute_hflags K env) AND MIPS_HFLAG_KSU K = MIPS_HFLAG_SM K \<and>
                 \<not> bit (CP0_Status env) (CP0St_SX K)) \<or>
                (hflags (compute_hflags K env) AND MIPS_HFLAG_KSU K = MIPS_HFLAG_KM K \<and>
                 \<not> bit (CP0_Status env) (CP0St_KX K)))))
          then MIPS_HFLAG_AWRAP K else 0)"
    unfolding hflags_AWRAP_def r k [symmetric] using z(1)
    by (auto simp add: shl1_test or_and_same)
  finally show ?thesis .
qed

lemma hflags_COP1X_final:
  assumes "hflags_layout K"
  shows "hflags (compute_hflags K env) AND MIPS_HFLAG_COP1X K =
         (if (if insn_flags env AND ISA_MIPS32R2 K \<noteq> 0
              then bit (fcr0 (active_fpu env)) (FCR0_F64 K)
              else if insn_flags env AND ISA_MIPS32 K \<noteq> 0
              then hflags (compute_hflags K env) AND MIPS_HFLAG_64 K \<noteq> 0
              else insn_flags env AND ISA_MIPS4 K \<noteq> 0 \<and>
                   bit (CP0_Status env) (CP0St_CU3 K))
          then MIPS_HFLAG_COP1X K else 0)"
proof -
  let ?e3 = "hflags_KSU K (hflags_ERL K (hflags_clear K env))"
  let ?e4 = "if TARGET_MIPS64 K then hflags_AWRAP K (hflags_64 K ?e3) else ?e3"
  let ?e9 = "hflags_DSP K (hflags_SBRI K (hflags_F64 K (hflags_FPU K (hflags_CP0 K ?e4))))"
  have k: "hflags ?e9 AND MIPS_HFLAG_64 K = hflags (compute_hflags K env) AND MIPS_HFLAG_64 K"
    by (simp add: compute_hflags_def hflags_tail_def Let_def step_keeps step_keeps_DSP
      layout_disjoint [OF assms])
  have z: "hflags ?e9 AND MIPS_HFLAG_COP1X K = 0"
    by (simp add: step_keeps step_keeps_DSP layout_disjoint [OF assms] cleared_flag
      within_clear_mask)
  have r: "CP0_Status ?e9 = CP0_Status env" "insn_flags ?e9 = insn_flags env"
    "active_fpu ?e9 = active_fpu env"
    by (simp_all add: step_regs cleared_regs)
  have "hflags (compute_hflags K env) AND MIPS_HFLAG_COP1X K =
        hflags (hflags_COP1X K ?e9) AND MIPS_HFLAG_COP1X K"
    by (simp add: compute_hflags_def hflags_tail_def Let_def step_keeps step_keeps_DSP
      layout_disjoint [OF assms])
  also have "\<dots> = (if (if insn_flags env AND ISA_MIPS32R2 K \<noteq> 0
              then bit (fcr0 (active_fpu env)) (FCR0_F64 K)
              else if insn_flags env AND ISA_MIPS32 K \<noteq> 0
              then hflags (compute_hflags K env) AND MIPS_HFLAG_64 K \<noteq> 0
              else insn_flags env AND ISA_MIPS4 K \<noteq> 0 \<and>
                   bit (CP0_Status env) (CP0St_CU3 K))
          then MIPS_HFLAG_COP1X K else 0)"
    unfolding hflags_COP1X_def r k [symmetric] using z
    by (simp add: shl1_test or_and_same)
  finally show ?thesis .
qed

text \<open>Claim C3. For a well-formed layout of the flags: after \<^verbatim>\<open>compute_hflags\<close> the KSU
  field of the mode flags holds the KSU bits of Status (bit \<open>i\<close> of the field is bit
  \<open>i + CP0St_KSU\<close> of Status) exactly when EXL, ERL and the debug-mode flag are all
  clear, and is zero otherwise; and the flags that depend on the privilege mode are
  those that the new value of the field gives, not those of the value the field had
  before the call. These are CP0, SBRI and, on a 64-bit target, 64 and AWRAP, which read
  the field, and COP1X, which reads it through the 64 flag of this pass (lines 321-324)
  and is otherwise decided by the F64 bit of FCR0 or the CU3 bit of Status. No other
  statement of the pass reads the privilege field or a flag derived from it.\<close>

theorem compute_hflags_privilege_mode:
  assumes "hflags_layout K"
  shows "(let h' = hflags (compute_hflags K env); ksu = h' AND MIPS_HFLAG_KSU K in
      ksu = (if privileged_state K env then 0
             else signed_drop_bit (CP0St_KSU K) (CP0_Status env) AND MIPS_HFLAG_KSU K) \<and>
      (\<forall>i. bit (MIPS_HFLAG_KSU K) i \<and> i + CP0St_KSU K < 32 \<longrightarrow>
         (bit h' i \<longleftrightarrow> \<not> privileged_state K env \<and> bit (CP0_Status env) (i + CP0St_KSU K))) \<and>
      (h' AND MIPS_HFLAG_CP0 K \<noteq> 0 \<longleftrightarrow>
         (bit (CP0_Status env) (CP0St_CU0 K) \<and> insn_flags env AND ISA_MIPS32R6 K = 0) \<or>
         ksu = 0) \<and>
      (h' AND MIPS_HFLAG_SBRI K \<noteq> 0 \<longleftrightarrow>
         ksu \<noteq> MIPS_HFLAG_KM K \<and> bit (CP0_Config5 env) (CP0C5_SBRI K)) \<and>
      (h' AND MIPS_HFLAG_64 K \<noteq> 0 \<longleftrightarrow>
         TARGET_MIPS64 K \<and> insn_flags env AND ISA_MIPS3 K \<noteq> 0 \<and>
         (ksu \<noteq> MIPS_HFLAG_UM K \<or> bit (CP0_Status env) (CP0St_PX K) \<or>
          bit (CP0_Status env) (CP0St_UX K))) \<and>
      (h' AND MIPS_HFLAG_AWRAP K \<noteq> 0 \<longleftrightarrow>
         TARGET_MIPS64 K \<and>
         (insn_flags env AND ISA_MIPS3 K = 0 \<or>
          (ksu = MIPS_HFLAG_UM K \<and> \<not> bit (CP0_Status env) (CP0St_UX K)) \<or>
          (insn_flags env AND ISA_MIPS64R6 K \<noteq> 0 \<and>
           ((ksu = MIPS_HFLAG_SM K \<and> \<not> bit (CP0_Status env) (CP0St_SX K)) \<or>
            (ksu = MIPS_HFLAG_KM K \<and> \<not> bit (CP0_Status env) (CP0St_KX K)))))) \<and>
      (h' AND MIPS_HFLAG_COP1X K \<noteq> 0 \<longleftrightarrow>
         (if insn_flags env AND ISA_MIPS32R2 K \<noteq> 0
          then bit (fcr0 (active_fpu env)) (FCR0_F64 K)
          else if insn_flags env AND ISA_MIPS32 K \<noteq> 0
          then h' AND MIPS_HFLAG_64 K \<noteq> 0
          else insn_flags env AND ISA_MIPS4 K \<noteq> 0 \<and>
               bit (CP0_Status env) (CP0St_CU3 K))))"
proof -
  let ?h = "hflags (compute_hflags K env)"
  let ?ksu = "?h AND MIPS_HFLAG_KSU K"
  have ksu: "?ksu = (if privileged_state K env then 0
             else signed_drop_bit (CP0St_KSU K) (CP0_Status env) AND MIPS_HFLAG_KSU K)"
    by (simp only: hflags_KSU_final [OF assms] hflags_KSU_after_KSU [OF assms])
  have bits: "bit ?h i \<longleftrightarrow> \<not> privileged_state K env \<and> bit (CP0_Status env) (i + CP0St_KSU K)"
    if "bit (MIPS_HFLAG_KSU K) i \<and> i + CP0St_KSU K < 32" for i
  proof -
    have "bit ?h i \<longleftrightarrow> bit ?ksu i"
      using that by (simp add: bit_and_iff)
    also have "\<dots> \<longleftrightarrow> \<not> privileged_state K env \<and> bit (CP0_Status env) (i + CP0St_KSU K)"
      using that by (simp add: ksu bit_and_iff bit_signed_drop_bit_32)
    finally show ?thesis .
  qed
  have cp0: "?h AND MIPS_HFLAG_CP0 K \<noteq> 0 \<longleftrightarrow>
         (bit (CP0_Status env) (CP0St_CU0 K) \<and> insn_flags env AND ISA_MIPS32R6 K = 0) \<or>
         ?ksu = 0"
    by (subst hflags_CP0_final [OF assms]) (simp add: layout_nonzero [OF assms])
  have sbri: "?h AND MIPS_HFLAG_SBRI K \<noteq> 0 \<longleftrightarrow>
         ?ksu \<noteq> MIPS_HFLAG_KM K \<and> bit (CP0_Config5 env) (CP0C5_SBRI K)"
    by (subst hflags_SBRI_final [OF assms]) (simp add: layout_nonzero [OF assms])
  have f64: "?h AND MIPS_HFLAG_64 K \<noteq> 0 \<longleftrightarrow>
         TARGET_MIPS64 K \<and> insn_flags env AND ISA_MIPS3 K \<noteq> 0 \<and>
         (?ksu \<noteq> MIPS_HFLAG_UM K \<or> bit (CP0_Status env) (CP0St_PX K) \<or>
          bit (CP0_Status env) (CP0St_UX K))"
    by (subst hflags_64_final [OF assms]) (simp add: layout_nonzero [OF assms])
  have awrap: "?h AND MIPS_HFLAG_AWRAP K \<noteq> 0 \<longleftrightarrow>
         TARGET_MIPS64 K \<and>
         (insn_flags env AND ISA_MIPS3 K = 0 \<or>
          (?ksu = MIPS_HFLAG_UM K \<and> \<not> bit (CP0_Status env) (CP0St_UX K)) \<or>
          (insn_flags env AND ISA_MIPS64R6 K \<noteq> 0 \<and>
           ((?ksu = MIPS_HFLAG_SM K \<and> \<not> bit (CP0_Status env) (CP0St_SX K)) \<or>
            (?ksu = MIPS_HFLAG_KM K \<and> \<not> bit (CP0_Status env) (CP0St_KX K)))))"
    by (subst hflags_AWRAP_final [OF assms]) (simp add: layout_nonzero [OF assms])
  have cop1x: "?h AND MIPS_HFLAG_COP1X K \<noteq> 0 \<longleftrightarrow>
         (if insn_flags env AND ISA_MIPS32R2 K \<noteq> 0
          then bit (fcr0 (active_fpu env)) (FCR0_F64 K)
          else if insn_flags env AND ISA_MIPS32 K \<noteq> 0
          then ?h AND MIPS_HFLAG_64 K \<noteq> 0
          else insn_flags env AND ISA_MIPS4 K \<noteq> 0 \<and>
               bit (CP0_Status env) (CP0St_CU3 K))"
    by (subst hflags_COP1X_final [OF assms]) (simp add: layout_nonzero [OF assms])
  show ?thesis
    unfolding Let_def using ksu bits cp0 sbri f64 awrap cop1x by blast
qed

text \<open>A user-mode Status on a MIPS III / MIPS32 core without UX, with the mode flags
  left by an earlier kernel-mode pass (CP0, 64 and COP1X set): the field becomes user
  mode and CP0, 64 and, through 64, COP1X are not set.\<close>

theorem compute_hflags_privilege_mode_witness:
  "hflags_layout mips_arch_defs \<and>
   \<not> privileged_state mips_arch_defs
       (env_zero\<lparr>CP0_Status := 0x10, hflags := 0x98, insn_flags := 0x24\<rparr>) \<and>
   hflags (compute_hflags mips_arch_defs
       (env_zero\<lparr>CP0_Status := 0x10, hflags := 0x98, insn_flags := 0x24\<rparr>))
     AND MIPS_HFLAG_KSU mips_arch_defs = MIPS_HFLAG_UM mips_arch_defs \<and>
   hflags (compute_hflags mips_arch_defs
       (env_zero\<lparr>CP0_Status := 0x10, hflags := 0x98, insn_flags := 0x24\<rparr>))
     AND MIPS_HFLAG_CP0 mips_arch_defs = 0 \<and>
   hflags (compute_hflags mips_arch_defs
       (env_zero\<lparr>CP0_Status := 0x10, hflags := 0x98, insn_flags := 0x24\<rparr>))
     AND MIPS_HFLAG_64 mips_arch_defs = 0 \<and>
   hflags (compute_hflags mips_arch_defs
       (env_zero\<lparr>CP0_Status := 0x10, hflags := 0x98, insn_flags := 0x24\<rparr>))
     AND MIPS_HFLAG_COP1X mips_arch_defs = 0"
proof -
  let ?e = "env_zero\<lparr>CP0_Status := 0x10, hflags := 0x98, insn_flags := 0x24\<rparr>"
  let ?h = "hflags (compute_hflags mips_arch_defs ?e)"
  have p: "\<not> privileged_state mips_arch_defs ?e"
    by (simp add: privileged_state_def mips_arch_defs_def env_zero_def)
  have s: "signed_drop_bit (CP0St_KSU mips_arch_defs) (CP0_Status ?e) AND
           MIPS_HFLAG_KSU mips_arch_defs = MIPS_HFLAG_UM mips_arch_defs"
    by (simp add: mips_arch_defs_def)
  have u: "MIPS_HFLAG_UM mips_arch_defs \<noteq> 0"
    "\<not> bit (CP0_Status ?e) (CP0St_CU0 mips_arch_defs)"
    "\<not> bit (CP0_Status ?e) (CP0St_PX mips_arch_defs)"
    "\<not> bit (CP0_Status ?e) (CP0St_UX mips_arch_defs)"
    by (simp_all add: mips_arch_defs_def)
  have i: "insn_flags ?e AND ISA_MIPS32R2 mips_arch_defs = 0"
    "insn_flags ?e AND ISA_MIPS32 mips_arch_defs \<noteq> 0"
    by (simp_all add: mips_arch_defs_def)
  note T = compute_hflags_privilege_mode [OF arch_layout, of ?e, unfolded Let_def]
  from T have "?h AND MIPS_HFLAG_KSU mips_arch_defs =
      (if privileged_state mips_arch_defs ?e then 0
       else signed_drop_bit (CP0St_KSU mips_arch_defs) (CP0_Status ?e) AND
            MIPS_HFLAG_KSU mips_arch_defs)"
    by (rule conjunct1)
  then have k: "?h AND MIPS_HFLAG_KSU mips_arch_defs = MIPS_HFLAG_UM mips_arch_defs"
    using p s by (simp only: if_False)
  from T have "?h AND MIPS_HFLAG_CP0 mips_arch_defs \<noteq> 0 \<longleftrightarrow>
      (bit (CP0_Status ?e) (CP0St_CU0 mips_arch_defs) \<and>
       insn_flags ?e AND ISA_MIPS32R6 mips_arch_defs = 0) \<or>
      ?h AND MIPS_HFLAG_KSU mips_arch_defs = 0"
    by blast
  then have c: "?h AND MIPS_HFLAG_CP0 mips_arch_defs = 0"
    using k u by metis
  from T have "?h AND MIPS_HFLAG_64 mips_arch_defs \<noteq> 0 \<longleftrightarrow>
      TARGET_MIPS64 mips_arch_defs \<and> insn_flags ?e AND ISA_MIPS3 mips_arch_defs \<noteq> 0 \<and>
      (?h AND MIPS_HFLAG_KSU mips_arch_defs \<noteq> MIPS_HFLAG_UM mips_arch_defs \<or>
       bit (CP0_Status ?e) (CP0St_PX mips_arch_defs) \<or>
       bit (CP0_Status ?e) (CP0St_UX mips_arch_defs))"
    by blast
  then have w: "?h AND MIPS_HFLAG_64 mips_arch_defs = 0"
    using k u by metis
  from T have "?h AND MIPS_HFLAG_COP1X mips_arch_defs \<noteq> 0 \<longleftrightarrow>
      (if insn_flags ?e AND ISA_MIPS32R2 mips_arch_defs \<noteq> 0
       then bit (fcr0 (active_fpu ?e)) (FCR0_F64 mips_arch_defs)
       else if insn_flags ?e AND ISA_MIPS32 mips_arch_defs \<noteq> 0
       then ?h AND MIPS_HFLAG_64 mips_arch_defs \<noteq> 0
       else insn_flags ?e AND ISA_MIPS4 mips_arch_defs \<noteq> 0 \<and>
            bit (CP0_Status ?e) (CP0St_CU3 mips_arch_defs))"
    by blast
  then have "?h AND MIPS_HFLAG_COP1X mips_arch_defs \<noteq> 0 \<longleftrightarrow>
      ?h AND MIPS_HFLAG_64 mips_arch_defs \<noteq> 0"
    by (simp only: i simp_thms if_False if_True)
  then have x: "?h AND MIPS_HFLAG_COP1X mips_arch_defs = 0"
    using w by simp
  show ?thesis
    using arch_layout p k c w x by blast
qed

text \<open>Claim C10. For a well-formed layout of the flags: when EXL or ERL is set in Status,
  or the debug-mode flag is set in the mode flags, \<^verbatim>\<open>compute_hflags\<close> leaves the KSU
  field at zero (kernel mode) and sets the CP0 flag.\<close>

theorem compute_hflags_privileged_cp0:
  assumes "hflags_layout K"
    and "bit (CP0_Status env) (CP0St_EXL K) \<or> bit (CP0_Status env) (CP0St_ERL K) \<or>
         hflags env AND MIPS_HFLAG_DM K \<noteq> 0"
  shows "hflags (compute_hflags K env) AND MIPS_HFLAG_KSU K = 0 \<and>
         hflags (compute_hflags K env) AND MIPS_HFLAG_CP0 K = MIPS_HFLAG_CP0 K"
proof -
  have p: "privileged_state K env"
    using assms(2) by (simp add: privileged_state_def)
  have ksu: "hflags (compute_hflags K env) AND MIPS_HFLAG_KSU K = 0"
    using p by (simp add: hflags_KSU_final [OF assms(1)] hflags_KSU_after_KSU [OF assms(1)])
  have "hflags (compute_hflags K env) AND MIPS_HFLAG_CP0 K = MIPS_HFLAG_CP0 K"
    by (subst hflags_CP0_final [OF assms(1)]) (simp add: ksu)
  with ksu show ?thesis by simp
qed

text \<open>A Status with ERL set and the KSU bits at user mode.\<close>

theorem compute_hflags_privileged_cp0_witness:
  "hflags_layout mips_arch_defs \<and>
   bit (CP0_Status (env_zero\<lparr>CP0_Status := 0x14, hflags := 0x3\<rparr>)) (CP0St_ERL mips_arch_defs) \<and>
   hflags (compute_hflags mips_arch_defs (env_zero\<lparr>CP0_Status := 0x14, hflags := 0x3\<rparr>))
     AND MIPS_HFLAG_KSU mips_arch_defs = 0 \<and>
   hflags (compute_hflags mips_arch_defs (env_zero\<lparr>CP0_Status := 0x14, hflags := 0x3\<rparr>))
     AND MIPS_HFLAG_CP0 mips_arch_defs = MIPS_HFLAG_CP0 mips_arch_defs"
proof -
  let ?e = "env_zero\<lparr>CP0_Status := 0x14, hflags := 0x3\<rparr>"
  have b: "bit (CP0_Status ?e) (CP0St_ERL mips_arch_defs)"
    by (simp add: mips_arch_defs_def)
  show ?thesis
    using compute_hflags_privileged_cp0 [OF arch_layout, of ?e] b arch_layout
    by blast
qed

section \<open>TLB lookup: invalidated entries\<close>

lemma r4k_scan_sound:
  "r4k_scan i es tag asid = Some (j, e) \<Longrightarrow>
   i \<le> j \<and> j < i + length es \<and> es ! (j - i) = e \<and> \<not> EHINV e \<and> r4k_entry_matches e tag asid"
proof (induction es arbitrary: i)
  case Nil
  then show ?case by simp
next
  case (Cons x xs)
  show ?case
  proof (cases "\<not> EHINV x \<and> r4k_entry_matches x tag asid")
    case True
    with Cons.prems show ?thesis by auto
  next
    case False
    with Cons.prems have "r4k_scan (Suc i) xs tag asid = Some (j, e)"
      by (auto split: if_splits)
    from Cons.IH [OF this]
    have ih: "Suc i \<le> j" "j < Suc i + length xs" "xs ! (j - Suc i) = e" "\<not> EHINV e"
      "r4k_entry_matches e tag asid"
      by simp_all
    from ih(1) have "j - i = Suc (j - Suc i)"
      by simp
    with ih show ?thesis
      by simp
  qed
qed

lemma r4k_scan_all_invalid:
  "list_all EHINV es \<Longrightarrow> r4k_scan i es tag asid = None"
  by (induction es arbitrary: i) simp_all

lemma r4k_scan_skips_invalid:
  "map_option snd (r4k_scan i (filter (\<lambda>e. \<not> EHINV e) es) tag asid) =
   map_option snd (r4k_scan k es tag asid)"
  by (induction es arbitrary: i k) simp_all

lemma r4k_map_address_alt:
  "r4k_map_address es tag sel offset asid acc =
     (case map_option snd (r4k_scan 0 es tag asid) of
        None \<Rightarrow> Inl TLB_Refill
      | Some e \<Rightarrow> r4k_check_half e sel offset acc)"
  by (simp add: r4k_map_address_def split: option.splits)

text \<open>Claim C8. An entry whose EHINV marker is set is never the match of a lookup: the
  index that the probe or the scan returns is inside the table and names an entry that
  is not invalidated, for every tag and address-space id; a translation gives the same
  result with the invalidated entries removed from the table; and on a table of
  invalidated entries only, the probe finds nothing and the translation raises the
  refill fault.\<close>

theorem invalidated_entry_never_matches:
  "(\<forall>i. r4k_helper_tlbp entries tag asid = Some i \<longrightarrow>
        i < length entries \<and> \<not> EHINV (entries ! i)) \<and>
   (\<forall>i e. r4k_scan 0 entries tag asid = Some (i, e) \<longrightarrow>
        i < length entries \<and> entries ! i = e \<and> \<not> EHINV e) \<and>
   r4k_map_address (filter (\<lambda>e. \<not> EHINV e) entries) tag sel offset asid acc =
     r4k_map_address entries tag sel offset asid acc \<and>
   (list_all EHINV entries \<longrightarrow>
      r4k_helper_tlbp entries tag asid = None \<and>
      r4k_map_address entries tag sel offset asid acc = Inl TLB_Refill)"
proof (intro conjI allI impI)
  fix i e
  assume "r4k_scan 0 entries tag asid = Some (i, e)"
  from r4k_scan_sound [OF this]
  show "i < length entries" "entries ! i = e" "\<not> EHINV e" by simp_all
next
  fix i
  assume "r4k_helper_tlbp entries tag asid = Some i"
  then obtain e where "r4k_scan 0 entries tag asid = Some (i, e)"
    by (auto simp add: r4k_helper_tlbp_def)
  from r4k_scan_sound [OF this]
  show "i < length entries" "\<not> EHINV (entries ! i)" by simp_all
next
  show "r4k_map_address (filter (\<lambda>e. \<not> EHINV e) entries) tag sel offset asid acc =
     r4k_map_address entries tag sel offset asid acc"
    by (simp only: r4k_map_address_alt r4k_scan_skips_invalid [of 0 entries tag asid 0])
next
  assume "list_all EHINV entries"
  then show "r4k_helper_tlbp entries tag asid = None"
    "r4k_map_address entries tag sel offset asid acc = Inl TLB_Refill"
    by (simp_all add: r4k_helper_tlbp_def r4k_map_address_def r4k_scan_all_invalid)
qed

text \<open>An invalidated entry in front of a valid one with the same tag: the probe returns
  the valid one. A table with the invalidated entry alone: no match.\<close>

theorem invalidated_entry_never_matches_witness:
  "r4k_helper_tlbp [tlb_entry_zero\<lparr>EHINV := True\<rparr>, tlb_entry_zero] 0 0 = Some 1 \<and>
   \<not> EHINV ([tlb_entry_zero\<lparr>EHINV := True\<rparr>, tlb_entry_zero] ! 1) \<and>
   list_all EHINV [tlb_entry_zero\<lparr>EHINV := True\<rparr>] \<and>
   r4k_helper_tlbp [tlb_entry_zero\<lparr>EHINV := True\<rparr>] 0 0 = None \<and>
   r4k_map_address [tlb_entry_zero\<lparr>EHINV := True\<rparr>] 0 False 0 0 Access_Read = Inl TLB_Refill"
proof -
  have p: "r4k_helper_tlbp [tlb_entry_zero\<lparr>EHINV := True\<rparr>, tlb_entry_zero] 0 0 = Some 1"
    by (simp add: r4k_helper_tlbp_def r4k_entry_matches_def tlb_entry_zero_def)
  have a: "list_all EHINV [tlb_entry_zero\<lparr>EHINV := True\<rparr>]"
    by simp
  show ?thesis
    using p a
      invalidated_entry_never_matches [where tag = 0 and asid = 0
        and entries = "[tlb_entry_zero\<lparr>EHINV := True\<rparr>, tlb_entry_zero]"]
      invalidated_entry_never_matches [where tag = 0 and asid = 0 and sel = False
        and offset = 0 and acc = Access_Read
        and entries = "[tlb_entry_zero\<lparr>EHINV := True\<rparr>]"]
    by blast
qed

end
